theory Spec2Isabelle
  imports Main "HOL-Library.Sublist"
begin

section \<open>Python values, exceptions and string operations\<close>

text \<open>
  The backend is Python. Its two entry points, \<open>JobScraper.scrape_job\<close> (scraper.py)
  and \<open>SmartJobURLParser.parse_job_url\<close> (url_parser.py), return dictionaries with string
  keys. A dictionary is modelled as a map from keys to values, so that a missing key
  (\<open>None\<close> of the map) and a key bound to Python's \<open>None\<close> (\<open>Some PNone\<close>) stay apart.
  Strings are lists of 8-bit characters, which stand for the code points below 256.
\<close>

datatype pyval = PNone | PStr string | PList "pyval list" | PDict "(string \<times> pyval) list"

type_synonym pydict = "string \<rightharpoonup> pyval"

text \<open>
  Exceptions are values: a class and the message that \<open>str(e)\<close> yields. Only subclasses of
  \<open>Exception\<close> are modelled; the two Selenium classes that the selector matcher catches are
  named, since the source tells them apart from every other one.
\<close>

datatype exn_class = ValueError | NoSuchElementException | TimeoutException | OtherException

datatype exn = Exn exn_class string

fun exn_class_of :: "exn \<Rightarrow> exn_class" where
  "exn_class_of (Exn c msg) = c"

fun str_of_exn :: "exn \<Rightarrow> string" where
  "str_of_exn (Exn c msg) = msg"

text \<open>\<open>sub in s\<close> on strings: \<open>sub\<close> occurs as a contiguous block of \<open>s\<close>.\<close>

fun str_in :: "string \<Rightarrow> string \<Rightarrow> bool" where
  "str_in sub [] = (sub = [])"
| "str_in sub (c # cs) = (prefix sub (c # cs) \<or> str_in sub cs)"

text \<open>
  \<open>str.lower()\<close>: the capital letters below 256 are \<open>A\<close> to \<open>Z\<close> (65 to 90) and the
  Latin-1 capitals 192 to 222 without the multiplication sign 215; each has its small
  letter 32 code points above.
\<close>

definition lower_char :: "char \<Rightarrow> char" where
  "lower_char c =
     (let n = (of_char c :: nat) in
      if (65 \<le> n \<and> n \<le> 90) \<or> (192 \<le> n \<and> n \<le> 222 \<and> n \<noteq> 215)
      then char_of (n + 32) else c)"

definition lower :: "string \<Rightarrow> string" where
  "lower s = map lower_char s"

text \<open>
  The characters that \<open>str.strip()\<close> removes: those for which \<open>str.isspace()\<close> holds, with
  code points 9 to 13, 28 to 32, 133 and 160 among the first 256.
\<close>

definition is_space :: "char \<Rightarrow> bool" where
  "is_space c = (let n = (of_char c :: nat) in (9 \<le> n \<and> n \<le> 13) \<or> (28 \<le> n \<and> n \<le> 32) \<or> n = 133 \<or> n = 160)"

text \<open>\<open>str.strip()\<close>.\<close>

definition strip :: "string \<Rightarrow> string" where
  "strip s = rev (dropWhile is_space (rev (dropWhile is_space s)))"

text \<open>
  Python's \<open>a or b\<close> where \<open>a\<close> is \<open>None\<close> or a string and \<open>b\<close> is a string: \<open>a\<close> when it is
  truthy (a non-empty string), else \<open>b\<close>.
\<close>

fun or_str :: "string option \<Rightarrow> string \<Rightarrow> string" where
  "or_str None d = d"
| "or_str (Some s) d = (if s = [] then d else s)"

text \<open>\<open>a or b\<close> where both sides are \<open>None\<close> or a string.\<close>

fun or_opt :: "string option \<Rightarrow> string option \<Rightarrow> string option" where
  "or_opt None b = b"
| "or_opt (Some s) b = (if s = [] then b else Some s)"

fun pyval_of_opt :: "string option \<Rightarrow> pyval" where
  "pyval_of_opt None = PNone"
| "pyval_of_opt (Some s) = PStr s"

section \<open>The URL library\<close>

text \<open>
  \<open>urllib.parse.urlparse\<close> and \<open>parse_qs\<close> are library functions; they are parameters of the
  model. \<open>urlparse\<close> raises \<open>ValueError\<close> on some strings (for example
  \<open>urlparse("http://[")\<close>: Invalid IPv6 URL), so its result is a sum. \<open>parse_qs\<close> maps a
  query string to a dictionary from parameter names to non-empty value lists: a value list
  is given as its first element and the rest. \<open>str_title\<close> is \<open>str.title()\<close>, which the site
  parsers apply to parts of the URL: its full case mapping leaves the 8-bit characters
  (the title case of the micro sign and of the sharp s), so it is a parameter too.
\<close>

record parse_result =
  netloc :: string
  path :: string
  query :: string

record url_lib =
  urlparse :: "string \<Rightarrow> exn + parse_result"
  parse_qs :: "string \<Rightarrow> (string \<rightharpoonup> string \<times> string list)"
  str_title :: "string \<Rightarrow> string"

section \<open>Source-site classification\<close>

text \<open>
  \<open>JobScraper._determine_source_site\<close> (scraper.py): the if-chain on the lower-cased
  network location.
\<close>

definition site_of_domain :: "string \<Rightarrow> string" where
  "site_of_domain domain =
     (if str_in ''glassdoor'' domain then ''glassdoor''
      else if str_in ''linkedin'' domain then ''linkedin''
      else if str_in ''indeed'' domain then ''indeed''
      else ''unknown'')"

definition determine_source_site :: "url_lib \<Rightarrow> string \<Rightarrow> exn + string" where
  "determine_source_site lib url =
     (case urlparse lib url of
        Inl e \<Rightarrow> Inl e
      | Inr p \<Rightarrow> Inr (site_of_domain (lower (netloc p))))"

text \<open>\<open>SmartJobURLParser._determine_source_site\<close> (url_parser.py), on a domain.\<close>

definition parser_determine_source_site :: "string \<Rightarrow> string" where
  "parser_determine_source_site domain =
     (if str_in ''linkedin'' domain then ''linkedin''
      else if str_in ''indeed'' domain then ''indeed''
      else if str_in ''glassdoor'' domain then ''glassdoor''
      else if str_in ''google'' domain then ''google_jobs''
      else if str_in ''ziprecruiter'' domain then ''ziprecruiter''
      else ''other'')"

text \<open>\<open>re.sub(r'^www\.', '', domain)\<close>: one leading \<open>www.\<close> is removed.\<close>

definition strip_www :: "string \<Rightarrow> string" where
  "strip_www domain = (if prefix ''www.'' domain then drop 4 domain else domain)"

text \<open>The domain that \<open>parse_job_url\<close> classifies and dispatches on.\<close>

definition normalized_domain :: "parse_result \<Rightarrow> string" where
  "normalized_domain p = strip_www (lower (netloc p))"

section \<open>The scraper's environment\<close>

text \<open>
  Everything \<open>scrape_job\<close> does outside the process is a parameter: the HTTP client, the
  HTML parser, the file system, the Chrome driver and the identifier generator. Each
  effect is recorded as an event, so that a run yields its result and the trace of what
  it did. Delays (\<open>time.sleep\<close>) and the random choice of a user agent change no result
  and are left out.
\<close>

datatype locator = CSS_SELECTOR | XPATH

datatype event =
    HttpGet string
  | WriteFile string
  | LaunchChrome
  | Stealth
  | Navigate string
  | FindElement locator string
  | PageSource
  | Quit

text \<open>
  A response of \<open>requests.get\<close>: its status code, \<open>response.text\<close>, and the document that
  \<open>BeautifulSoup(response.content, 'html.parser')\<close> builds, seen through
  \<open>select_one(selector)\<close>: \<open>None\<close> when no element matches, else the element's
  \<open>get_text(strip=True)\<close>.
\<close>

record response =
  status_code :: int
  resp_text :: string
  soup :: "exn + (string \<Rightarrow> string option)"

text \<open>
  A Selenium driver. \<open>find_element\<close> stands for the two lines
  \<open>element = driver.find_element(By.CSS_SELECTOR, selector)\<close> and \<open>element.text\<close>: the text of the
  element found, or the exception raised.
\<close>

record driver =
  apply_stealth :: "exn option"
  drv_get :: "string \<Rightarrow> exn option"
  find_element :: "locator \<Rightarrow> string \<Rightarrow> exn + string"
  page_source :: "exn + string"
  drv_quit :: "exn option"

record scraper_env =
  lib :: url_lib
  uuid4 :: string
  requests_get :: "string \<Rightarrow> string option \<Rightarrow> exn + response"
  write_file :: "string \<Rightarrow> string \<Rightarrow> exn option"
  chrome :: "string option \<Rightarrow> exn + driver"

section \<open>The scraper\<close>

definition snapshots_dir :: string where
  "snapshots_dir = ''../snapshots''"

text \<open>The proxy list of \<open>JobScraper.__init__\<close>: every entry is commented out.\<close>

definition proxy_list :: "string list" where
  "proxy_list = []"

text \<open>\<open>_get_next_proxy\<close>: the proxy chosen, if any, and the new rotation index.\<close>

definition get_next_proxy :: "string list \<Rightarrow> nat \<Rightarrow> string option \<times> nat" where
  "get_next_proxy pl current_proxy_index =
     (if pl = [] then (None, current_proxy_index)
      else (Some (pl ! current_proxy_index), (current_proxy_index + 1) mod length pl))"

text \<open>
  \<open>_get_chrome_driver\<close>: launch Chrome (through the proxy when there is one), apply
  selenium-stealth, return the driver. Either step may raise.
\<close>

definition get_chrome_driver :: "scraper_env \<Rightarrow> nat \<Rightarrow> (exn + driver) \<times> event list" where
  "get_chrome_driver env idx =
     (let proxy = fst (get_next_proxy proxy_list idx) in
      case chrome env proxy of
        Inl e \<Rightarrow> (Inl e, [LaunchChrome])
      | Inr drv \<Rightarrow>
          (case apply_stealth drv of
             Some e \<Rightarrow> (Inl e, [LaunchChrome, Stealth])
           | None \<Rightarrow> (Inr drv, [LaunchChrome, Stealth])))"

definition by_of_method :: "string \<Rightarrow> locator" where
  "by_of_method method =
     (if method = ''css'' then CSS_SELECTOR
      else if method = ''xpath'' then XPATH
      else CSS_SELECTOR)"

text \<open>
  \<open>_find_element_with_fallbacks\<close>: the loop over the selectors. A lookup that raises
  \<open>NoSuchElementException\<close> or \<open>TimeoutException\<close> moves on to the next selector, as an
  element with empty stripped text does; any other exception leaves the function.
\<close>

fun find_element_with_fallbacks ::
  "driver \<Rightarrow> string list \<Rightarrow> string \<Rightarrow> (exn + string option) \<times> event list" where
  "find_element_with_fallbacks drv [] method = (Inr None, [])"
| "find_element_with_fallbacks drv (selector # selectors) method =
     (case find_element drv (by_of_method method) selector of
        Inl e \<Rightarrow>
          (if exn_class_of e = NoSuchElementException \<or> exn_class_of e = TimeoutException
           then (case find_element_with_fallbacks drv selectors method of
                   (r, t) \<Rightarrow> (r, FindElement (by_of_method method) selector # t))
           else (Inl e, [FindElement (by_of_method method) selector]))
      | Inr raw \<Rightarrow>
          (let text = strip raw in
           if text \<noteq> [] then (Inr (Some text), [FindElement (by_of_method method) selector])
           else (case find_element_with_fallbacks drv selectors method of
                   (r, t) \<Rightarrow> (r, FindElement (by_of_method method) selector # t))))"

text \<open>\<open>_save_html_snapshot\<close>: the path is \<open>os.path.join(snapshots_dir, job_id + ".html")\<close>.\<close>

definition save_html_snapshot ::
  "scraper_env \<Rightarrow> string \<Rightarrow> string \<Rightarrow> (exn + string) \<times> event list" where
  "save_html_snapshot env html_content job_id =
     (let filename = job_id @ ''.html'';
          filepath = snapshots_dir @ ''/'' @ filename in
      case write_file env filepath html_content of
        Some e \<Rightarrow> (Inl e, [WriteFile filepath])
      | None \<Rightarrow> (Inr filepath, [WriteFile filepath]))"

subsection \<open>Tier 1: the plain HTTP fetch\<close>

definition requests_title_selectors :: "string list" where
  \<open>requests_title_selectors =
     [''h1[data-testid*="title"]'', ''h1[class*="job-title"]'', ''h1[class*="title"]'', ''h1'',
      ''[data-testid*="job-title"]'', ''[class*="job-title"]'']\<close>

definition requests_company_selectors :: "string list" where
  \<open>requests_company_selectors =
     [''[data-testid*="company"]'', ''[class*="company-name"]'', ''[class*="employer"]'',
      ''a[href*="company"]'', ''span[class*="company"]'']\<close>

definition requests_desc_selectors :: "string list" where
  \<open>requests_desc_selectors =
     [''[data-testid*="description"]'', ''[class*="job-description"]'', ''[class*="description"]'',
      ''[id*="description"]'']\<close>

text \<open>
  The three \<open>for selector in ...\<close> loops of \<open>_try_requests_scraping\<close>: the text of the
  first selector whose element exists and has non-empty text.
\<close>

fun select_first_text :: "(string \<Rightarrow> string option) \<Rightarrow> string list \<Rightarrow> string option" where
  "select_first_text select_one [] = None"
| "select_first_text select_one (selector # selectors) =
     (case select_one selector of
        None \<Rightarrow> select_first_text select_one selectors
      | Some t \<Rightarrow> (if t \<noteq> [] then Some t else select_first_text select_one selectors))"

definition truthy :: "string option \<Rightarrow> bool" where
  "truthy v = (case v of None \<Rightarrow> False | Some s \<Rightarrow> s \<noteq> [])"

text \<open>
  \<open>_try_requests_scraping\<close>: every exception is caught and gives \<open>None\<close>, as a status other
  than 200 and a page with neither title nor company do.
\<close>

definition try_requests_scraping :: "scraper_env \<Rightarrow> string \<Rightarrow> pydict option \<times> event list" where
  "try_requests_scraping env url =
     (let proxy = fst (get_next_proxy proxy_list 0) in
      case requests_get env url proxy of
        Inl e \<Rightarrow> (None, [HttpGet url])
      | Inr r \<Rightarrow>
          (if status_code r = 200 then
             (case soup r of
                Inl e \<Rightarrow> (None, [HttpGet url])
              | Inr select_one \<Rightarrow>
                  (let job_title = select_first_text select_one requests_title_selectors;
                       company_name = select_first_text select_one requests_company_selectors;
                       job_description =
                         map_option (take 2000) (select_first_text select_one requests_desc_selectors)
                   in if truthy job_title \<or> truthy company_name then
                        (Some [''company_name'' \<mapsto> PStr (or_str company_name ''Unknown Company''),
                               ''job_title'' \<mapsto> PStr (or_str job_title ''Unknown Position''),
                               ''job_description'' \<mapsto>
                                  PStr (or_str job_description ''No description available''),
                               ''html_content'' \<mapsto> PStr (resp_text r),
                               ''extraction_method'' \<mapsto> PStr ''requests''],
                         [HttpGet url])
                      else (None, [HttpGet url])))
           else (None, [HttpGet url])))"

subsection \<open>Tier 2: the site extractors\<close>

definition linkedin_company_selectors :: "string list" where
  "linkedin_company_selectors =
     [''.job-details-jobs-unified-top-card__company-name a'',
      ''.job-details-jobs-unified-top-card__company-name'',
      ''[data-testid='job-details-company-name']'',
      ''.jobs-unified-top-card__company-name a'',
      ''.jobs-unified-top-card__company-name'',
      ''.job-details-company a'',
      ''.job-details-company'',
      ''a[data-control-name='job_details_topcard_company_url']'']"

definition linkedin_title_selectors :: "string list" where
  "linkedin_title_selectors =
     [''.job-details-jobs-unified-top-card__job-title a'',
      ''.job-details-jobs-unified-top-card__job-title'',
      ''.jobs-unified-top-card__job-title a'',
      ''.jobs-unified-top-card__job-title'',
      ''h1[data-testid='job-details-job-title']'',
      ''h1.job-details-job-title'',
      ''h1.jobs-unified-top-card__job-title'',
      ''h1'']"

definition linkedin_description_selectors :: "string list" where
  "linkedin_description_selectors =
     [''.job-details-jobs-unified-top-card__job-description'',
      ''.jobs-description-content__text'',
      ''.jobs-box__html-content'',
      ''.job-details-job-description'',
      ''[data-testid='job-details-job-description']'',
      ''.jobs-description__content'',
      ''.job-view-layout .jobs-box__html-content'']"

definition glassdoor_company_selectors :: "string list" where
  "glassdoor_company_selectors =
     [''[data-test='employer-name']'',
      ''.employer-name'',
      ''[data-testid='employer-name']'',
      ''.jobview-header-employer-name'',
      ''.job-details-employer-name'',
      ''span[data-test='employer-name']'',
      ''.employer-info span'']"

definition glassdoor_title_selectors :: "string list" where
  "glassdoor_title_selectors =
     [''[data-test='job-title']'',
      ''.job-title'',
      ''[data-testid='job-title']'',
      ''.jobview-header-job-title'',
      ''.job-details-job-title'',
      ''h1[data-test='job-title']'',
      ''h1.job-title'']"

definition glassdoor_description_selectors :: "string list" where
  "glassdoor_description_selectors =
     [''[data-test='job-description-content']'',
      ''.job-description-content'',
      ''[data-testid='job-description-content']'',
      ''.jobview-job-description-content'',
      ''.job-details-description-content'',
      ''.jobDescriptionContent'',
      ''#job-description-content'']"

definition indeed_company_selectors :: "string list" where
  "indeed_company_selectors =
     [''[data-testid='inlineHeader-companyName']'',
      ''[data-testid='company-name']'',
      ''span[data-testid='company-name']'',
      ''.icl-u-lg-mr--sm'',
      ''span[class*='company']'',
      ''[data-testid='jobsearch-CompanyInfoContainer'] span'',
      ''.jobsearch-CompanyInfoWithoutHeaderImage span'']"

definition indeed_title_selectors :: "string list" where
  "indeed_title_selectors =
     [''[data-testid='jobsearch-JobInfoHeader-title']'',
      ''h1[data-testid='jobsearch-JobInfoHeader-title']'',
      ''h1.jobsearch-JobInfoHeader-title'',
      ''h1'',
      ''.jobsearch-JobInfoHeader-title'',
      ''[data-testid='job-title']'']"

definition indeed_description_selectors :: "string list" where
  "indeed_description_selectors =
     [''#jobDescriptionText'',
      ''[data-testid='jobsearch-JobComponent-description']'',
      ''.jobsearch-JobComponent-description'',
      ''[data-testid='job-description']'',
      ''.jobDescriptionContent'',
      ''#job-description'']"

text \<open>
  The three site extractors \<open>_scrape_linkedin\<close>, \<open>_scrape_glassdoor\<close> and \<open>_scrape_indeed\<close>
  have one body: navigate, then resolve company, title and description through their
  selector chains, each with its placeholder. An exception of the navigation or of a chain
  leaves the extractor at once.
\<close>

definition scrape_with_chains ::
  "driver \<Rightarrow> string \<Rightarrow> string list \<Rightarrow> string list \<Rightarrow> string list \<Rightarrow> string
     \<Rightarrow> (exn + pydict) \<times> event list" where
  "scrape_with_chains drv url company_selectors title_selectors description_selectors site =
     (case drv_get drv url of
        Some e \<Rightarrow> (Inl e, [Navigate url])
      | None \<Rightarrow>
          (case find_element_with_fallbacks drv company_selectors ''css'' of
             (Inl e, t1) \<Rightarrow> (Inl e, Navigate url # t1)
           | (Inr company, t1) \<Rightarrow>
               (case find_element_with_fallbacks drv title_selectors ''css'' of
                  (Inl e, t2) \<Rightarrow> (Inl e, Navigate url # t1 @ t2)
                | (Inr title, t2) \<Rightarrow>
                    (case find_element_with_fallbacks drv description_selectors ''css'' of
                       (Inl e, t3) \<Rightarrow> (Inl e, Navigate url # t1 @ t2 @ t3)
                     | (Inr description, t3) \<Rightarrow>
                         (Inr [''company_name'' \<mapsto> PStr (or_str company ''Unknown Company''),
                               ''job_title'' \<mapsto> PStr (or_str title ''Unknown Position''),
                               ''job_description'' \<mapsto>
                                  PStr (or_str description ''No description available''),
                               ''source_site'' \<mapsto> PStr site],
                          Navigate url # t1 @ t2 @ t3)))))"

definition scrape_linkedin :: "driver \<Rightarrow> string \<Rightarrow> (exn + pydict) \<times> event list" where
  "scrape_linkedin drv url =
     scrape_with_chains drv url linkedin_company_selectors linkedin_title_selectors
       linkedin_description_selectors ''linkedin''"

definition scrape_glassdoor :: "driver \<Rightarrow> string \<Rightarrow> (exn + pydict) \<times> event list" where
  "scrape_glassdoor drv url =
     scrape_with_chains drv url glassdoor_company_selectors glassdoor_title_selectors
       glassdoor_description_selectors ''glassdoor''"

definition scrape_indeed :: "driver \<Rightarrow> string \<Rightarrow> (exn + pydict) \<times> event list" where
  "scrape_indeed drv url =
     scrape_with_chains drv url indeed_company_selectors indeed_title_selectors
       indeed_description_selectors ''indeed''"

text \<open>The \<open>else\<close> branch of the dispatch in \<open>scrape_job\<close>: only a title is looked for.\<close>

definition scrape_generic :: "driver \<Rightarrow> string \<Rightarrow> string \<Rightarrow> (exn + pydict) \<times> event list" where
  "scrape_generic drv url source_site =
     (case drv_get drv url of
        Some e \<Rightarrow> (Inl e, [Navigate url])
      | None \<Rightarrow>
          (case find_element_with_fallbacks drv [''h1'', ''title'', ''.job-title'', ''.title''] ''css'' of
             (Inl e, t) \<Rightarrow> (Inl e, Navigate url # t)
           | (Inr generic_title, t) \<Rightarrow>
               (Inr [''company_name'' \<mapsto> PStr ''Unknown Company'',
                     ''job_title'' \<mapsto> PStr (or_str generic_title ''Unknown Position''),
                     ''job_description'' \<mapsto> PStr ''No description available'',
                     ''source_site'' \<mapsto> PStr source_site],
                Navigate url # t)))"

definition dispatch_extractor ::
  "driver \<Rightarrow> string \<Rightarrow> string \<Rightarrow> (exn + pydict) \<times> event list" where
  "dispatch_extractor drv url source_site =
     (if source_site = ''linkedin'' then scrape_linkedin drv url
      else if source_site = ''glassdoor'' then scrape_glassdoor drv url
      else if source_site = ''indeed'' then scrape_indeed drv url
      else scrape_generic drv url source_site)"

subsection \<open>The orchestrator\<close>

text \<open>
  The inner \<open>try\<close> of the browser tier: the page source is saved; when reading or saving
  it raises, the snapshot path is \<open>None\<close> and the job data is returned all the same.
\<close>

definition attach_snapshot ::
  "scraper_env \<Rightarrow> driver \<Rightarrow> string \<Rightarrow> pydict \<Rightarrow> pydict \<times> event list" where
  "attach_snapshot env drv job_id job_data =
     (case page_source drv of
        Inl e \<Rightarrow> (job_data(''html_snapshot_path'' \<mapsto> PNone), [PageSource])
      | Inr html_content \<Rightarrow>
          (case save_html_snapshot env html_content job_id of
             (Inl e, t) \<Rightarrow> (job_data(''html_snapshot_path'' \<mapsto> PNone), PageSource # t)
           | (Inr html_path, t) \<Rightarrow>
               (job_data(''html_snapshot_path'' \<mapsto> PStr html_path), PageSource # t)))"

text \<open>The dictionary that the \<open>except Exception as e\<close> handler of \<open>scrape_job\<close> returns.\<close>

definition error_result :: "string \<Rightarrow> exn \<Rightarrow> pydict" where
  "error_result source_site e =
     [''company_name'' \<mapsto> PStr ''Unknown Company'',
      ''job_title'' \<mapsto> PStr ''Unknown Position'',
      ''job_description'' \<mapsto> PStr (''Error occurred while scraping: '' @ str_of_exn e),
      ''source_site'' \<mapsto> PStr source_site,
      ''html_snapshot_path'' \<mapsto> PNone]"

text \<open>
  \<open>finally: if driver: try: driver.quit() except: pass\<close>, for a driver that was acquired:
  \<open>quit\<close> is called, and what it raises is dropped.
\<close>

definition release_driver :: "driver \<Rightarrow> event list" where
  "release_driver drv = (case drv_quit drv of None \<Rightarrow> [Quit] | Some e \<Rightarrow> [Quit])"

text \<open>
  Step 2 of \<open>scrape_job\<close>, the \<open>try\<close>/\<open>except\<close>/\<open>finally\<close> around the browser. When
  \<open>_get_chrome_driver\<close> raises, \<open>driver\<close> is still \<open>None\<close> and the \<open>finally\<close> clause does
  nothing.
\<close>

definition browser_tier ::
  "scraper_env \<Rightarrow> string \<Rightarrow> string \<Rightarrow> string \<Rightarrow> nat \<Rightarrow> pydict \<times> event list" where
  "browser_tier env url source_site job_id idx =
     (case get_chrome_driver env idx of
        (Inl e, t0) \<Rightarrow> (error_result source_site e, t0)
      | (Inr drv, t0) \<Rightarrow>
          (case dispatch_extractor drv url source_site of
             (Inl e, t1) \<Rightarrow>
               (error_result source_site e, t0 @ t1 @ release_driver drv)
           | (Inr job_data, t1) \<Rightarrow>
               (case attach_snapshot env drv job_id job_data of
                  (result, t2) \<Rightarrow> (result, t0 @ t1 @ t2 @ release_driver drv))))"

text \<open>
  \<open>scrape_job\<close>. The classification of the URL stands before every \<open>try\<close>, so what
  \<open>urlparse\<close> raises reaches the caller. When the lightweight fetch gave a result and its
  snapshot is saved, that result is returned with the path and the site added and
  \<open>html_content\<close> deleted; when saving raises, the run goes on to the browser tier.
\<close>

definition scrape_job :: "scraper_env \<Rightarrow> string \<Rightarrow> (exn + pydict) \<times> event list" where
  "scrape_job env url =
     (case determine_source_site (lib env) url of
        Inl e \<Rightarrow> (Inl e, [])
      | Inr source_site \<Rightarrow>
          (let job_id = uuid4 env;
               idx = snd (get_next_proxy proxy_list 0) in
           case try_requests_scraping env url of
             (None, t1) \<Rightarrow>
               (case browser_tier env url source_site job_id idx of
                  (result, t3) \<Rightarrow> (Inr result, t1 @ t3))
           | (Some requests_result, t1) \<Rightarrow>
               (case requests_result ''html_content'' of
                  Some (PStr html_content) \<Rightarrow>
                    (case save_html_snapshot env html_content job_id of
                       (Inr html_path, t2) \<Rightarrow>
                         (Inr ((requests_result(''html_snapshot_path'' \<mapsto> PStr html_path,
                                               ''source_site'' \<mapsto> PStr source_site))
                                 (''html_content'' := None)),
                          t1 @ t2)
                     | (Inl e, t2) \<Rightarrow>
                         (case browser_tier env url source_site job_id idx of
                            (result, t3) \<Rightarrow> (Inr result, t1 @ t2 @ t3)))
                | _ \<Rightarrow>
                    (case browser_tier env url source_site job_id idx of
                       (result, t3) \<Rightarrow> (Inr result, t1 @ t3)))))"

section \<open>The URL parser\<close>

subsection \<open>String helpers of the site parsers\<close>

definition is_digit :: "char \<Rightarrow> bool" where
  "is_digit c = (c \<in> set ''0123456789'')"

text \<open>
  \<open>re.search(lit + '(' + cls + '+)', s)\<close> for a literal \<open>lit\<close> and a character class
  \<open>cls\<close>: group 1 of the leftmost match, the longest run of class characters after the
  first occurrence of the literal that is followed by one.
\<close>

fun search_after :: "string \<Rightarrow> (char \<Rightarrow> bool) \<Rightarrow> string \<Rightarrow> string option" where
  "search_after lit cls [] = None"
| "search_after lit cls (c # cs) =
     (if prefix lit (c # cs) \<and> takeWhile cls (drop (length lit) (c # cs)) \<noteq> []
      then Some (takeWhile cls (drop (length lit) (c # cs)))
      else search_after lit cls cs)"

text \<open>\<open>s.replace(old, new)\<close> for a non-empty \<open>old\<close>.\<close>

fun replace :: "string \<Rightarrow> string \<Rightarrow> string \<Rightarrow> string" where
  "replace old new [] = []"
| "replace old new (c # cs) =
     (if prefix old (c # cs) then new @ replace old new (drop (length old - 1) cs)
      else c # replace old new cs)"

text \<open>\<open>s.split(sep)\<close> for a one-character separator.\<close>

fun split :: "char \<Rightarrow> string \<Rightarrow> string list" where
  "split sep [] = [[]]"
| "split sep (c # cs) =
     (if c = sep then [] # split sep cs
      else (case split sep cs of [] \<Rightarrow> [[c]] | w # ws \<Rightarrow> (c # w) # ws))"

text \<open>\<open>sep.join(parts)\<close>.\<close>

fun join :: "string \<Rightarrow> string list \<Rightarrow> string" where
  "join sep [] = []"
| "join sep [w] = w"
| "join sep (w # ws) = w @ sep @ join sep ws"

text \<open>\<open>s.strip('/')\<close>.\<close>

definition strip_slashes :: "string \<Rightarrow> string" where
  "strip_slashes s = rev (dropWhile (\<lambda>c. c = CHR ''/'') (rev (dropWhile (\<lambda>c. c = CHR ''/'') s)))"

text \<open>\<open>parts.index(x)\<close> for an \<open>x\<close> that occurs in \<open>parts\<close>.\<close>

fun index_of :: "string \<Rightarrow> string list \<Rightarrow> nat" where
  "index_of x [] = 0"
| "index_of x (w # ws) = (if w = x then 0 else Suc (index_of x ws))"

text \<open>\<open>query_params.get(key, [None])[0]\<close>.\<close>

definition first_param :: "(string \<rightharpoonup> string \<times> string list) \<Rightarrow> string \<Rightarrow> string option" where
  "first_param query_params key = map_option fst (query_params key)"

text \<open>Truth value of a looked-up dictionary value, as \<open>not result.get(key)\<close> tests it.\<close>

fun py_truthy :: "pyval option \<Rightarrow> bool" where
  "py_truthy None = False"
| "py_truthy (Some PNone) = False"
| "py_truthy (Some (PStr s)) = (s \<noteq> [])"
| "py_truthy (Some (PList vs)) = (vs \<noteq> [])"
| "py_truthy (Some (PDict kvs)) = (kvs \<noteq> [])"

text \<open>\<open>d.update(other)\<close> for a dictionary literal \<open>other\<close>, given as its key-value pairs.\<close>

definition dict_update :: "pydict \<Rightarrow> (string \<times> pyval) list \<Rightarrow> pydict" where
  "dict_update d other = d ++ map_of other"

subsection \<open>The parser's environment\<close>

text \<open>
  The page that \<open>_get_page_metadata\<close> fetches: whether \<open>raise_for_status\<close> raises, the
  stripped text of the \<open>title\<close> element, and the \<open>content\<close> attribute (default: the empty
  string) of the two \<open>meta\<close> elements looked for; \<open>None\<close> when the element is missing.
\<close>

record page =
  raise_for_status :: "exn option"
  title_text :: "string option"
  meta_description :: "string option"
  meta_og_description :: "string option"

text \<open>
  The two regular expressions that clean the page title are library calls with fixed
  patterns; they are parameters:
  \<^item> \<open>sub_site_suffix t\<close> is \<open>re.sub\<close> of the pattern for the job-board suffixes
    (Indeed.com, LinkedIn, Glassdoor, Jobs after a dash or a bar, ignoring case) by the
    empty string in \<open>t\<close>;
  \<^item> \<open>search_company t\<close> is group 1 of \<open>re.search\<close> of the pattern for a trailing company
    (after at, @ or a dash) in \<open>t\<close>, \<open>None\<close> when there is no match;
  \<^item> \<open>sub_company t\<close> is \<open>re.sub\<close> of that pattern by the empty string in \<open>t\<close>.
\<close>

record parser_env =
  plib :: url_lib
  fetch_page :: "string \<Rightarrow> exn + page"
  sub_site_suffix :: "string \<Rightarrow> string"
  search_company :: "string \<Rightarrow> string option"
  sub_company :: "string \<Rightarrow> string"

subsection \<open>The site parsers\<close>

definition common_job_titles :: "string list" where
  "common_job_titles =
     [''Software Engineer'', ''Data Scientist'', ''Product Manager'', ''Designer'',
      ''Marketing Manager'', ''Sales Representative'', ''Project Manager'',
      ''Business Analyst'', ''DevOps Engineer'', ''Frontend Developer'',
      ''Backend Developer'', ''Full Stack Developer'', ''UX Designer'',
      ''Data Analyst'', ''Technical Writer'', ''QA Engineer'', ''Consultant'']"

definition suggested_titles :: pyval where
  "suggested_titles = PList (map PStr (take 10 common_job_titles))"

definition parse_linkedin_url ::
  "url_lib \<Rightarrow> string \<Rightarrow> parse_result \<Rightarrow> (string \<times> pyval) list" where
  "parse_linkedin_url ul url parsed_url =
     (let job_id = search_after ''/jobs/view/'' is_digit url;
          company_match = search_after ''linkedin.com/company/'' (\<lambda>c. c \<noteq> CHR ''/'' \<and> c \<noteq> CHR ''?'') url;
          company_name = map_option (\<lambda>g. str_title ul (replace ''-'' '' '' g)) company_match
      in [(''job_id'', pyval_of_opt job_id),
          (''company_name'', pyval_of_opt company_name),
          (''parsed_data'', PDict [(''linkedin_job_id'', pyval_of_opt job_id)])])"

definition search_results_message :: string where
  "search_results_message =
     ''This appears to be a search results URL without a specific job selected. '' @
     ''Please click on a specific job posting and copy that URL instead. '' @
     ''Look for URLs that contain 'viewjob' or a 'vjk' parameter.''"

text \<open>\<open>_parse_indeed_url\<close>: the one site parser that raises.\<close>

definition parse_indeed_url ::
  "url_lib \<Rightarrow> string \<Rightarrow> parse_result \<Rightarrow> exn + (string \<times> pyval) list" where
  "parse_indeed_url ul url parsed_url =
     (let query_params = parse_qs ul (query parsed_url);
          job_id = or_opt (first_param query_params ''jk'') (first_param query_params ''vjk'')
      in if \<not> truthy job_id \<and> str_in ''q='' (query parsed_url)
         then Inl (Exn ValueError search_results_message)
         else (let location = first_param query_params ''l''
               in Inr [(''job_id'', pyval_of_opt job_id),
                       (''location'', pyval_of_opt location),
                       (''parsed_data'', PDict [(''indeed_job_key'', pyval_of_opt job_id)])]))"

definition parse_glassdoor_url ::
  "url_lib \<Rightarrow> string \<Rightarrow> parse_result \<Rightarrow> (string \<times> pyval) list" where
  "parse_glassdoor_url ul url parsed_url =
     (let job_id = search_after ''JV_ID'' is_digit url;
          path_parts = split (CHR ''/'') (path parsed_url);
          job_listing_part = replace ''-'' '' '' (replace ''.htm'' [] (last path_parts));
          parts = split (CHR '' '') job_listing_part
      in if length path_parts > 2 \<and> length parts \<ge> 3
         then [(''job_id'', pyval_of_opt job_id),
               (''job_title'', PStr (str_title ul (join '' '' (take 2 parts)))),
               (''company_name'', PStr (str_title ul (join '' '' (take 2 (drop 2 parts))))),
               (''parsed_data'', PDict [(''glassdoor_job_id'', pyval_of_opt job_id)])]
         else [(''job_id'', pyval_of_opt job_id),
               (''parsed_data'', PDict [(''glassdoor_job_id'', pyval_of_opt job_id)])])"

definition parse_google_jobs_url ::
  "url_lib \<Rightarrow> string \<Rightarrow> parse_result \<Rightarrow> (string \<times> pyval) list" where
  "parse_google_jobs_url ul url parsed_url =
     (let query_params = parse_qs ul (query parsed_url);
          location = or_opt (first_param query_params ''l'') (first_param query_params ''location'');
          q = first_param query_params ''q''
      in [(''job_title'', pyval_of_opt q),
          (''location'', pyval_of_opt location),
          (''parsed_data'', PDict [(''google_jobs_query'', pyval_of_opt q)])])"

definition parse_ziprecruiter_url ::
  "url_lib \<Rightarrow> string \<Rightarrow> parse_result \<Rightarrow> (string \<times> pyval) list" where
  "parse_ziprecruiter_url ul url parsed_url =
     (let path_parts = split (CHR ''/'') (strip_slashes (path parsed_url));
          jobs_index = index_of ''jobs'' path_parts
      in if ''jobs'' \<in> set path_parts \<and> length path_parts > jobs_index + 1
         then [(''company_name'', PStr (str_title ul (replace ''-'' '' '' (path_parts ! (jobs_index + 1)))))]
         else [])"

subsection \<open>Page metadata\<close>

text \<open>
  \<open>_get_page_metadata\<close>: every exception of the fetch is caught and gives the empty
  dictionary.
\<close>

definition get_page_metadata :: "parser_env \<Rightarrow> string \<Rightarrow> (string \<times> pyval) list" where
  "get_page_metadata env url =
     (case fetch_page env url of
        Inl e \<Rightarrow> []
      | Inr pg \<Rightarrow>
          (case raise_for_status pg of
             Some e \<Rightarrow> []
           | None \<Rightarrow>
               (let page_title0 = title_text pg;
                    page_title1 =
                      (if truthy page_title0
                       then map_option (\<lambda>t. strip (sub_site_suffix env t)) page_title0
                       else page_title0);
                    description_meta =
                      (case meta_description pg of
                         Some c \<Rightarrow> Some c
                       | None \<Rightarrow> meta_og_description pg);
                    description = map_option strip description_meta;
                    company_match =
                      (case page_title1 of
                         None \<Rightarrow> None
                       | Some t \<Rightarrow> (if t \<noteq> [] then search_company env t else None));
                    company_name = map_option strip company_match;
                    page_title =
                      (if company_match \<noteq> None
                       then map_option (\<lambda>t. strip (sub_company env t)) page_title1
                       else page_title1);
                    description_preview =
                      (case description of
                         None \<Rightarrow> None
                       | Some d \<Rightarrow> (if d \<noteq> [] \<and> length d > 200 then Some (take 200 d @ ''...'') else Some d))
                in [(''job_title'', pyval_of_opt page_title),
                    (''company_name'', pyval_of_opt company_name),
                    (''description_preview'', pyval_of_opt description_preview),
                    (''parsed_data'',
                       PDict [(''page_title'', pyval_of_opt page_title),
                              (''meta_description'', pyval_of_opt description)])])))"

subsection \<open>\<open>parse_job_url\<close>\<close>

datatype site_parser = Linkedin | Indeed | Glassdoor | GoogleJobs | Ziprecruiter

text \<open>The table \<open>company_patterns\<close>, in the order of the dictionary literal.\<close>

definition company_patterns :: "(string \<times> site_parser) list" where
  "company_patterns =
     [(''linkedin.com'', Linkedin),
      (''indeed.com'', Indeed),
      (''glassdoor.com'', Glassdoor),
      (''jobs.google.com'', GoogleJobs),
      (''ziprecruiter.com'', Ziprecruiter)]"

fun run_parser ::
  "url_lib \<Rightarrow> site_parser \<Rightarrow> string \<Rightarrow> parse_result \<Rightarrow> exn + (string \<times> pyval) list" where
  "run_parser ul Linkedin url parsed_url = Inr (parse_linkedin_url ul url parsed_url)"
| "run_parser ul Indeed url parsed_url = parse_indeed_url ul url parsed_url"
| "run_parser ul Glassdoor url parsed_url = Inr (parse_glassdoor_url ul url parsed_url)"
| "run_parser ul GoogleJobs url parsed_url = Inr (parse_google_jobs_url ul url parsed_url)"
| "run_parser ul Ziprecruiter url parsed_url = Inr (parse_ziprecruiter_url ul url parsed_url)"

text \<open>
  The loop over the table: the first pattern that occurs in the domain decides, and its
  parser's dictionary updates the result (\<open>break\<close>); with no such pattern the result stays.
\<close>

fun apply_site_parser ::
  "url_lib \<Rightarrow> (string \<times> site_parser) list \<Rightarrow> string \<Rightarrow> string \<Rightarrow> parse_result \<Rightarrow> pydict
     \<Rightarrow> exn + pydict" where
  "apply_site_parser ul [] domain url parsed_url result = Inr result"
| "apply_site_parser ul ((site_pattern, parser_func) # rest) domain url parsed_url result =
     (if str_in site_pattern domain
      then (case run_parser ul parser_func url parsed_url of
              Inl e \<Rightarrow> Inl e
            | Inr parsed_data \<Rightarrow> Inr (dict_update result parsed_data))
      else apply_site_parser ul rest domain url parsed_url result)"

text \<open>The body of the \<open>try\<close> block of \<open>parse_job_url\<close>.\<close>

definition parse_job_url_body :: "parser_env \<Rightarrow> string \<Rightarrow> exn + pydict" where
  "parse_job_url_body env url =
     (case urlparse (plib env) url of
        Inl e \<Rightarrow> Inl e
      | Inr parsed_url \<Rightarrow>
          (let domain = normalized_domain parsed_url;
               result = [''job_url'' \<mapsto> PStr url,
                         ''source_site'' \<mapsto> PStr (parser_determine_source_site domain),
                         ''job_id'' \<mapsto> PNone,
                         ''company_name'' \<mapsto> PNone,
                         ''job_title'' \<mapsto> PNone,
                         ''location'' \<mapsto> PNone,
                         ''suggested_titles'' \<mapsto> suggested_titles,
                         ''parsed_data'' \<mapsto> PDict []]
           in case apply_site_parser (plib env) company_patterns domain url parsed_url result of
                Inl e \<Rightarrow> Inl e
              | Inr result1 \<Rightarrow>
                  (if \<not> py_truthy (result1 ''job_title'')
                   then Inr (dict_update result1 (get_page_metadata env url))
                   else Inr result1)))"

text \<open>The dictionary that the \<open>except Exception as e\<close> handler of \<open>parse_job_url\<close> returns.\<close>

definition parse_error_result :: "string \<Rightarrow> exn \<Rightarrow> pydict" where
  "parse_error_result url e =
     [''job_url'' \<mapsto> PStr url,
      ''source_site'' \<mapsto> PStr ''unknown'',
      ''job_id'' \<mapsto> PNone,
      ''company_name'' \<mapsto> PNone,
      ''job_title'' \<mapsto> PNone,
      ''location'' \<mapsto> PNone,
      ''suggested_titles'' \<mapsto> suggested_titles,
      ''error'' \<mapsto> PStr (str_of_exn e)]"

text \<open>
  \<open>parse_job_url\<close>: \<open>Inr\<close> is the dictionary returned, \<open>Inl\<close> would be an exception that
  reaches the caller.
\<close>

definition parse_job_url :: "parser_env \<Rightarrow> string \<Rightarrow> exn + pydict" where
  "parse_job_url env url =
     (case parse_job_url_body env url of
        Inr result \<Rightarrow> Inr result
      | Inl e \<Rightarrow> Inr (parse_error_result url e))"

section \<open>What a selector chain finds\<close>




text \<open>
  Two notions for the proofs about \<open>scrape_job\<close>: a result that has its site and
  non-empty company and title, and a trace in which no browser is launched or quit.
\<close>

definition nonempty_str :: "pyval option \<Rightarrow> bool" where
  "nonempty_str v = (case v of Some (PStr s) \<Rightarrow> s \<noteq> [] | _ \<Rightarrow> False)"

definition complete_result :: "string \<Rightarrow> pydict \<Rightarrow> bool" where
  "complete_result site d =
     (d ''source_site'' = Some (PStr site) \<and>
      nonempty_str (d ''company_name'') \<and>
      nonempty_str (d ''job_title''))"

definition browserless :: "event list \<Rightarrow> bool" where
  "browserless t = (LaunchChrome \<notin> set t \<and> Quit \<notin> set t)"

section \<open>Example environments\<close>

text \<open>
  Concrete environments on which the theorems below are run. \<open>example_lib\<close> gives the
  components that \<open>urlparse\<close> and \<open>parse_qs\<close> compute for a few URLs; on \<open>http://[\<close>
  \<open>urlparse\<close> raises. Its \<open>str_title\<close> is \<open>str.title()\<close> on ASCII strings: a letter is
  upper-cased after a non-letter and lower-cased after a letter.
\<close>

definition ascii_upper_lower :: "(char \<times> char) list" where
  "ascii_upper_lower = zip ''ABCDEFGHIJKLMNOPQRSTUVWXYZ'' ''abcdefghijklmnopqrstuvwxyz''"

fun ascii_title_from :: "bool \<Rightarrow> string \<Rightarrow> string" where
  "ascii_title_from previous_is_cased [] = []"
| "ascii_title_from previous_is_cased (c # cs) =
     (case map_of ascii_upper_lower c of
        Some l \<Rightarrow> (if previous_is_cased then l else c) # ascii_title_from True cs
      | None \<Rightarrow>
          (case map_of (map (\<lambda>(u, l). (l, u)) ascii_upper_lower) c of
             Some u \<Rightarrow> (if previous_is_cased then c else u) # ascii_title_from True cs
           | None \<Rightarrow> c # ascii_title_from False cs))"

definition ascii_title :: "string \<Rightarrow> string" where
  "ascii_title s = ascii_title_from False s"

definition example_lib :: url_lib where
  "example_lib =
     \<lparr>urlparse = (\<lambda>u.
        if u = ''https://www.linkedin.com/jobs/view/3849201/''
        then Inr \<lparr>netloc = ''www.linkedin.com'', path = ''/jobs/view/3849201/'', query = []\<rparr>
        else if u = ''https://ca.indeed.com/jobs?q=engineer&l=Toronto''
        then Inr \<lparr>netloc = ''ca.indeed.com'', path = ''/jobs'', query = ''q=engineer&l=Toronto''\<rparr>
        else if u = ''https://www.indeed.co.uk/jobs?q=engineer''
        then Inr \<lparr>netloc = ''www.indeed.co.uk'', path = ''/jobs'', query = ''q=engineer''\<rparr>
        else if u = ''https://example.com/careers/42''
        then Inr \<lparr>netloc = ''example.com'', path = ''/careers/42'', query = []\<rparr>
        else if u = ''http://['' then Inl (Exn ValueError ''Invalid IPv6 URL'')
        else Inr \<lparr>netloc = [], path = u, query = []\<rparr>),
      parse_qs = (\<lambda>q.
        if q = ''q=engineer&l=Toronto''
        then [''q'' \<mapsto> (''engineer'', []), ''l'' \<mapsto> (''Toronto'', [])]
        else if q = ''q=engineer'' then [''q'' \<mapsto> (''engineer'', [])]
        else Map.empty),
      str_title = ascii_title\<rparr>"

text \<open>A parser environment in which the network is down.\<close>

definition example_parser_env :: parser_env where
  "example_parser_env =
     \<lparr>plib = example_lib,
      fetch_page = (\<lambda>u. Inl (Exn OtherException ''Connection refused'')),
      sub_site_suffix = (\<lambda>t. t),
      search_company = (\<lambda>t. None),
      sub_company = (\<lambda>t. t)\<rparr>"

text \<open>A page with a title under \<open>h1\<close> and a description of 2500 characters.\<close>

definition example_document :: "string \<Rightarrow> string option" where
  \<open>example_document selector =
     (if selector = ''h1'' then Some ''Software Engineer''
      else if selector = ''[id*="description"]'' then Some (replicate 2500 (CHR ''x''))
      else None)\<close>

definition example_response :: response where
  "example_response =
     \<lparr>status_code = 200,
      resp_text = ''<html><h1>Software Engineer</h1></html>'',
      soup = Inr example_document\<rparr>"

text \<open>
  A driver that finds a title under \<open>h1\<close> and a description of 2001 characters, and whose
  \<open>quit\<close> raises.
\<close>

definition example_driver :: driver where
  "example_driver =
     \<lparr>apply_stealth = None,
      drv_get = (\<lambda>u. None),
      find_element = (\<lambda>b selector.
        if selector = ''h1'' then Inr '' Software Engineer ''
        else if selector = ''.jobs-description__content'' then Inr (replicate 2001 (CHR ''x''))
        else Inl (Exn NoSuchElementException ''no such element'')),
      page_source = Inr ''<html><h1>Software Engineer</h1></html>'',
      drv_quit = Some (Exn OtherException ''chrome not reachable'')\<rparr>"


text \<open>The same driver with a navigation that raises.\<close>

definition failing_driver :: driver where
  "failing_driver = example_driver\<lparr>drv_get := (\<lambda>u. Some (Exn OtherException ''net::ERR_NAME_NOT_RESOLVED''))\<rparr>"

text \<open>
  A scraper environment from the outcome of the HTTP request, of writing a file and of
  launching Chrome.
\<close>

definition example_env :: "exn + response \<Rightarrow> exn option \<Rightarrow> exn + driver \<Rightarrow> scraper_env" where
  "example_env http_outcome write_outcome chrome_outcome =
     \<lparr>lib = example_lib,
      uuid4 = ''123e4567-e89b-42d3-a456-426614174000'',
      requests_get = (\<lambda>u proxy. http_outcome),
      write_file = (\<lambda>p c. write_outcome),
      chrome = (\<lambda>proxy. chrome_outcome)\<rparr>"

section \<open>Properties of the classification\<close>

lemma str_in_append_left:
  "sub \<noteq> [] \<Longrightarrow> hd sub \<notin> set pre \<Longrightarrow> str_in sub (pre @ s) = str_in sub s"
proof (induction pre)
  case Nil
  then show ?case by simp
next
  case (Cons a pre)
  then obtain x xs where "sub = x # xs" by (cases sub) auto
  with Cons show ?case by auto
qed

lemma str_in_strip_www:
  assumes "sub \<noteq> []" "hd sub \<noteq> CHR ''w''" "hd sub \<noteq> CHR ''.''"
  shows "str_in sub (strip_www d) = str_in sub d"
proof (cases "prefix ''www.'' d")
  case True
  then obtain r where d: "d = ''www.'' @ r" by (auto simp: prefix_def)
  have "str_in sub (''www.'' @ r) = str_in sub r"
    using assms by (intro str_in_append_left) auto
  with True d show ?thesis by (simp add: strip_www_def)
next
  case False
  then show ?thesis by (simp add: strip_www_def)
qed

text \<open>
  Claim C4, as it is written: the scraper's classification of a URL equals the parser's.
  It fails on \<open>https://example.com/careers/42\<close>: the scraper says \<open>unknown\<close>, the parser
  says \<open>other\<close>.
\<close>

theorem classifiers_differ_counterexample:
  "determine_source_site example_lib ''https://example.com/careers/42'' = Inr ''unknown'' \<and>
   parser_determine_source_site
     (normalized_domain \<lparr>netloc = ''example.com'', path = ''/careers/42'', query = []\<rparr>) = ''other''"
  by (simp add: determine_source_site_def example_lib_def site_of_domain_def
      parser_determine_source_site_def normalized_domain_def strip_www_def
      lower_def lower_char_def)

text \<open>
  Claim C4, amended: for a URL that \<open>urlparse\<close> parses, the scraper's classification
  equals the one that \<open>parse_job_url\<close> computes exactly when the lower-cased host contains
  \<open>glassdoor\<close> and neither \<open>linkedin\<close> nor \<open>indeed\<close>, or contains \<open>linkedin\<close> or \<open>indeed\<close>
  and not \<open>glassdoor\<close>. On every other host the two differ: in the order of their tests,
  in the sites they know, and in the name of the default (\<open>unknown\<close> against \<open>other\<close>).
\<close>

theorem classifiers_agree_iff:
  assumes "urlparse ul url = Inr p"
  shows "(determine_source_site ul url = Inr (parser_determine_source_site (normalized_domain p))) =
         (let d = lower (netloc p) in
            (str_in ''glassdoor'' d \<and> \<not> str_in ''linkedin'' d \<and> \<not> str_in ''indeed'' d) \<or>
            (\<not> str_in ''glassdoor'' d \<and> (str_in ''linkedin'' d \<or> str_in ''indeed'' d)))"
  using assms
  by (simp add: determine_source_site_def parser_determine_source_site_def site_of_domain_def
      normalized_domain_def str_in_strip_www Let_def)

theorem classifiers_agree_iff_witness:
  "determine_source_site example_lib ''https://www.linkedin.com/jobs/view/3849201/'' =
     Inr (parser_determine_source_site
            (normalized_domain \<lparr>netloc = ''www.linkedin.com'', path = ''/jobs/view/3849201/'', query = []\<rparr>))"
proof -
  have h: "urlparse example_lib ''https://www.linkedin.com/jobs/view/3849201/'' =
      Inr \<lparr>netloc = ''www.linkedin.com'', path = ''/jobs/view/3849201/'', query = []\<rparr>"
    by (simp add: example_lib_def)
  show ?thesis
    using classifiers_agree_iff [OF h]
    by (simp add: lower_def lower_char_def)
qed

section \<open>Properties of the URL parser\<close>


lemma dict_update_other: "map_of other k = None \<Longrightarrow> dict_update d other k = d k"
  by (simp add: dict_update_def map_add_def)

lemma run_parser_keys:
  "run_parser ul sp url p = Inr kvs \<Longrightarrow> k \<in> {''job_url'', ''source_site'', ''suggested_titles'', ''error''} \<Longrightarrow> map_of kvs k = None"
  by (cases sp)
     (auto simp: parse_linkedin_url_def parse_indeed_url_def parse_glassdoor_url_def
        parse_google_jobs_url_def parse_ziprecruiter_url_def Let_def split: if_splits)

lemma run_parser_Inl:
  "run_parser ul sp url p = Inl e \<Longrightarrow> e = Exn ValueError search_results_message"
  by (cases sp) (auto simp: parse_indeed_url_def Let_def split: if_splits)

lemma apply_site_parser_keys:
  "apply_site_parser ul pats domain url p result = Inr r \<Longrightarrow> k \<in> {''job_url'', ''source_site'', ''suggested_titles'', ''error''} \<Longrightarrow> r k = result k"
proof (induction pats)
  case Nil
  then show ?case by simp
next
  case (Cons a pats)
  obtain pat sp where a: "a = (pat, sp)" by (cases a)
  show ?case
  proof (cases "str_in pat domain")
    case True
    with Cons.prems a obtain kvs where "run_parser ul sp url p = Inr kvs" "r = dict_update result kvs"
      by (auto split: sum.splits)
    with Cons.prems(2) show ?thesis by (simp add: dict_update_other run_parser_keys)
  next
    case False
    with Cons a show ?thesis by simp
  qed
qed

lemma apply_site_parser_Inl:
  "apply_site_parser ul pats domain url p result = Inl e \<Longrightarrow> e = Exn ValueError search_results_message"
  by (induction pats) (auto split: if_splits sum.splits dest: run_parser_Inl)

lemma get_page_metadata_keys: "k \<in> {''job_url'', ''source_site'', ''suggested_titles'', ''error''} \<Longrightarrow> map_of (get_page_metadata env url) k = None"
  by (auto simp: get_page_metadata_def Let_def split: sum.splits option.splits)

lemma parse_job_url_body_Inr:
  assumes "parse_job_url_body env url = Inr r"
  shows "r ''job_url'' = Some (PStr url) \<and> (\<exists>s. r ''source_site'' = Some (PStr s)) \<and>
         r ''suggested_titles'' = Some suggested_titles \<and> r ''error'' = None"
proof -
  from assms obtain p where p: "urlparse (plib env) url = Inr p"
    by (auto simp: parse_job_url_body_def split: sum.splits)
  define result :: pydict where "result =
     [''job_url'' \<mapsto> PStr url,
      ''source_site'' \<mapsto> PStr (parser_determine_source_site (normalized_domain p)),
      ''job_id'' \<mapsto> PNone, ''company_name'' \<mapsto> PNone, ''job_title'' \<mapsto> PNone,
      ''location'' \<mapsto> PNone, ''suggested_titles'' \<mapsto> suggested_titles,
      ''parsed_data'' \<mapsto> PDict []]"
  from assms p obtain r1 where
    r1: "apply_site_parser (plib env) company_patterns (normalized_domain p) url p result = Inr r1"
    and r: "r = r1 \<or> r = dict_update r1 (get_page_metadata env url)"
    by (auto simp: parse_job_url_body_def Let_def result_def split: sum.splits if_splits)
  have keep: "r k = result k" if "k \<in> {''job_url'', ''source_site'', ''suggested_titles'', ''error''}" for k
    using r apply_site_parser_keys [OF r1 that] that
    by (auto simp: dict_update_other get_page_metadata_keys)
  have "r ''job_url'' = result ''job_url''" "r ''source_site'' = result ''source_site''"
    "r ''suggested_titles'' = result ''suggested_titles''" "r ''error'' = result ''error''"
    by (simp_all add: keep)
  then show ?thesis by (simp add: result_def)
qed

lemma parse_job_url_body_Inl:
  assumes "parse_job_url_body env url = Inl e"
  shows "urlparse (plib env) url = Inl e \<or> e = Exn ValueError search_results_message"
  using assms
  by (auto simp: parse_job_url_body_def Let_def split: sum.splits if_splits
      dest: apply_site_parser_Inl)

text \<open>
  Claim C7: \<open>parse_job_url\<close> never raises. In every environment and for every string
  it returns a dictionary that carries \<open>job_url\<close>, a \<open>source_site\<close> and the suggested
  titles; when the body of its \<open>try\<close> block raised, the dictionary has an \<open>error\<close> field
  with the message of the exception, and that exception came from \<open>urlparse\<close> or is the
  search-results error of the Indeed parser; otherwise there is no \<open>error\<close> field. A
  failure of the metadata fetch (the request or \<open>raise_for_status\<close>) gives the empty
  metadata dictionary and no error.
\<close>

theorem parse_job_url_never_raises:
  "\<exists>d. parse_job_url env url = Inr d \<and>
       d ''job_url'' = Some (PStr url) \<and>
       (\<exists>s. d ''source_site'' = Some (PStr s)) \<and>
       d ''suggested_titles'' = Some suggested_titles \<and>
       (case parse_job_url_body env url of
          Inl e \<Rightarrow> d ''error'' = Some (PStr (str_of_exn e)) \<and>
                   (urlparse (plib env) url = Inl e \<or> e = Exn ValueError search_results_message)
        | Inr r \<Rightarrow> d ''error'' = None) \<and>
       (\<forall>e. fetch_page env url = Inl e \<longrightarrow> get_page_metadata env url = []) \<and>
       (\<forall>pg e. fetch_page env url = Inr pg \<and> raise_for_status pg = Some e \<longrightarrow>
          get_page_metadata env url = [])"
proof (cases "parse_job_url_body env url")
  case (Inl e)
  then show ?thesis
    using parse_job_url_body_Inl [OF Inl]
    by (auto simp: parse_job_url_def parse_error_result_def get_page_metadata_def)
next
  case (Inr r)
  then show ?thesis
    using parse_job_url_body_Inr [OF Inr]
    by (auto simp: parse_job_url_def get_page_metadata_def)
qed


lemma example_indeed_search_body:
  "parse_job_url_body example_parser_env ''https://ca.indeed.com/jobs?q=engineer&l=Toronto'' =
     Inl (Exn ValueError search_results_message)"
  by (simp add: parse_job_url_body_def example_parser_env_def example_lib_def normalized_domain_def
      strip_www_def lower_def lower_char_def company_patterns_def
      parse_indeed_url_def first_param_def truthy_def Let_def)

lemma example_other_body:
  "\<exists>r. parse_job_url_body example_parser_env ''https://example.com/careers/42'' = Inr r"
  by (simp add: parse_job_url_body_def example_parser_env_def example_lib_def normalized_domain_def
      strip_www_def lower_def lower_char_def company_patterns_def Let_def)

theorem parse_job_url_never_raises_witness:
  "(\<exists>d. parse_job_url example_parser_env ''https://ca.indeed.com/jobs?q=engineer&l=Toronto'' = Inr d \<and>
        d ''job_url'' = Some (PStr ''https://ca.indeed.com/jobs?q=engineer&l=Toronto'') \<and>
        d ''error'' = Some (PStr search_results_message)) \<and>
   (\<exists>d. parse_job_url example_parser_env ''https://example.com/careers/42'' = Inr d \<and>
        d ''error'' = None \<and>
        get_page_metadata example_parser_env ''https://example.com/careers/42'' = [])"
proof -
  have f: "fetch_page example_parser_env ''https://example.com/careers/42'' =
      Inl (Exn OtherException ''Connection refused'')"
    by (simp add: example_parser_env_def)
  show ?thesis
    using parse_job_url_never_raises
            [of example_parser_env "''https://ca.indeed.com/jobs?q=engineer&l=Toronto''"]
          parse_job_url_never_raises [of example_parser_env "''https://example.com/careers/42''"]
          example_indeed_search_body example_other_body f
    by auto
qed

text \<open>
  Claim C9: whenever the exception handler of \<open>parse_job_url\<close> is reached, the result
  reports \<open>source_site\<close> as \<open>unknown\<close>, whatever the host is, the fields \<open>job_id\<close>,
  \<open>company_name\<close>, \<open>job_title\<close> and \<open>location\<close> are \<open>None\<close>, and the ten suggested titles
  are there. The witness is the Indeed search-results URL, whose host classifies as
  \<open>indeed\<close>.
\<close>

theorem parse_error_result_fields:
  assumes "parse_job_url_body env url = Inl e"
  shows "\<exists>d. parse_job_url env url = Inr d \<and>
           d ''source_site'' = Some (PStr ''unknown'') \<and>
           d ''job_id'' = Some PNone \<and>
           d ''company_name'' = Some PNone \<and>
           d ''job_title'' = Some PNone \<and>
           d ''location'' = Some PNone \<and>
           d ''suggested_titles'' =
             Some (PList (map PStr
               [''Software Engineer'', ''Data Scientist'', ''Product Manager'', ''Designer'',
                ''Marketing Manager'', ''Sales Representative'', ''Project Manager'',
                ''Business Analyst'', ''DevOps Engineer'', ''Frontend Developer'']))"
  using assms
  by (simp add: parse_job_url_def parse_error_result_def suggested_titles_def common_job_titles_def)

theorem parse_error_result_fields_witness:
  "parser_determine_source_site
     (normalized_domain \<lparr>netloc = ''ca.indeed.com'', path = ''/jobs'', query = ''q=engineer&l=Toronto''\<rparr>)
     = ''indeed'' \<and>
   (\<exists>d. parse_job_url example_parser_env ''https://ca.indeed.com/jobs?q=engineer&l=Toronto'' = Inr d \<and>
        d ''source_site'' = Some (PStr ''unknown'') \<and>
        d ''job_id'' = Some PNone \<and> d ''location'' = Some PNone)"
proof -
  have "parser_determine_source_site
     (normalized_domain \<lparr>netloc = ''ca.indeed.com'', path = ''/jobs'', query = ''q=engineer&l=Toronto''\<rparr>)
     = ''indeed''"
    by (simp add: parser_determine_source_site_def normalized_domain_def strip_www_def
        lower_def lower_char_def)
  then show ?thesis
    using parse_error_result_fields [OF example_indeed_search_body] by auto
qed

text \<open>
  Claim C3, amended: when the lower-cased host contains \<open>indeed.com\<close> and not
  \<open>linkedin.com\<close>, the query contains \<open>q=\<close> and has neither a \<open>jk\<close> nor a \<open>vjk\<close>
  parameter, \<open>parse_job_url\<close> returns the error result with the search-results message.
\<close>

theorem indeed_search_url_error:
  assumes "urlparse (plib env) url = Inr p"
    and "str_in ''indeed.com'' (lower (netloc p))"
    and "\<not> str_in ''linkedin.com'' (lower (netloc p))"
    and "str_in ''q='' (query p)"
    and "parse_qs (plib env) (query p) ''jk'' = None"
    and "parse_qs (plib env) (query p) ''vjk'' = None"
  shows "parse_job_url env url = Inr (parse_error_result url (Exn ValueError search_results_message))"
  using assms
  by (simp add: parse_job_url_def parse_job_url_body_def company_patterns_def normalized_domain_def
      str_in_strip_www parse_indeed_url_def first_param_def truthy_def Let_def)

theorem indeed_search_url_error_witness:
  "parse_job_url example_parser_env ''https://ca.indeed.com/jobs?q=engineer&l=Toronto'' =
     Inr (parse_error_result ''https://ca.indeed.com/jobs?q=engineer&l=Toronto''
            (Exn ValueError search_results_message))"
proof -
  have h: "urlparse (plib example_parser_env) ''https://ca.indeed.com/jobs?q=engineer&l=Toronto'' =
      Inr \<lparr>netloc = ''ca.indeed.com'', path = ''/jobs'', query = ''q=engineer&l=Toronto''\<rparr>"
    by (simp add: example_parser_env_def example_lib_def)
  show ?thesis
    by (rule indeed_search_url_error [OF h])
       (simp_all add: example_parser_env_def example_lib_def lower_def lower_char_def)
qed

text \<open>
  Claim C3, as it is written, asks for the host to contain \<open>indeed\<close>. The parser table
  is keyed by \<open>indeed.com\<close>: on \<open>https://www.indeed.co.uk/jobs?q=engineer\<close> no site parser
  runs, and the result is a normal one, classified \<open>indeed\<close>, without an \<open>error\<close> field.
\<close>

theorem indeed_host_without_indeed_com_counterexample:
  "urlparse (plib example_parser_env) ''https://www.indeed.co.uk/jobs?q=engineer'' =
     Inr \<lparr>netloc = ''www.indeed.co.uk'', path = ''/jobs'', query = ''q=engineer''\<rparr> \<and>
   str_in ''indeed'' (lower ''www.indeed.co.uk'') \<and>
   str_in ''q='' ''q=engineer'' \<and>
   parse_qs (plib example_parser_env) ''q=engineer'' ''jk'' = None \<and>
   parse_qs (plib example_parser_env) ''q=engineer'' ''vjk'' = None \<and>
   (case parse_job_url example_parser_env ''https://www.indeed.co.uk/jobs?q=engineer'' of
      Inl e \<Rightarrow> False
    | Inr d \<Rightarrow> d ''error'' = None \<and> d ''source_site'' = Some (PStr ''indeed''))"
  by (simp add: parse_job_url_def parse_job_url_body_def example_parser_env_def example_lib_def
      normalized_domain_def strip_www_def lower_def lower_char_def
      company_patterns_def get_page_metadata_def dict_update_def
      parser_determine_source_site_def Let_def)

section \<open>Properties of the scraper\<close>





subsection \<open>Traces and results of the tiers\<close>

lemma nonempty_str_iff: "nonempty_str v = (\<exists>s. v = Some (PStr s) \<and> s \<noteq> [])"
  by (auto simp: nonempty_str_def split: option.splits pyval.splits)

lemma or_str_nonempty: "placeholder \<noteq> [] \<Longrightarrow> or_str v placeholder \<noteq> []"
  by (cases v) auto

lemma browserless_simps [simp]:
  "browserless []"
  "browserless (x # t) = (x \<noteq> LaunchChrome \<and> x \<noteq> Quit \<and> browserless t)"
  "browserless (t @ t') = (browserless t \<and> browserless t')"
  by (auto simp: browserless_def)

lemma find_browserless:
  "browserless (snd (find_element_with_fallbacks drv selectors m))"
  by (induction selectors) (auto simp: Let_def split: sum.splits prod.splits)

lemma find_browserless':
  "find_element_with_fallbacks drv selectors m = (r, t) \<Longrightarrow> browserless t"
  using find_browserless [of drv selectors m] by simp

declare find_element_with_fallbacks.simps [simp del]

lemma scrape_with_chains_browserless:
  "scrape_with_chains drv url cs ts ds site = (r, t) \<Longrightarrow> browserless t"
  by (auto simp: scrape_with_chains_def split: option.splits sum.splits prod.splits
      dest: find_browserless')

lemma scrape_with_chains_result:
  "scrape_with_chains drv url cs ts ds site = (Inr d, t) \<Longrightarrow>
     complete_result site d \<and> d ''extraction_method'' = None"
  by (auto simp: scrape_with_chains_def complete_result_def nonempty_str_iff or_str_nonempty
      split: option.splits sum.splits prod.splits)

lemma scrape_generic_browserless:
  "scrape_generic drv url site = (r, t) \<Longrightarrow> browserless t"
  by (auto simp: scrape_generic_def split: option.splits sum.splits prod.splits
      dest: find_browserless')

lemma scrape_generic_result:
  "scrape_generic drv url site = (Inr d, t) \<Longrightarrow>
     complete_result site d \<and> d ''extraction_method'' = None"
  by (auto simp: scrape_generic_def complete_result_def nonempty_str_iff or_str_nonempty
      split: option.splits sum.splits prod.splits)

lemma dispatch_browserless:
  "dispatch_extractor drv url site = (r, t) \<Longrightarrow> browserless t"
  by (auto simp: dispatch_extractor_def scrape_linkedin_def scrape_glassdoor_def scrape_indeed_def
      split: if_splits dest: scrape_with_chains_browserless scrape_generic_browserless)

lemma dispatch_result:
  "dispatch_extractor drv url site = (Inr d, t) \<Longrightarrow>
     complete_result site d \<and> d ''extraction_method'' = None"
  by (auto simp: dispatch_extractor_def scrape_linkedin_def scrape_glassdoor_def scrape_indeed_def
      split: if_splits dest: scrape_with_chains_result scrape_generic_result)

lemma save_browserless:
  "save_html_snapshot env html job_id = (r, t) \<Longrightarrow> browserless t"
  by (auto simp: save_html_snapshot_def Let_def split: option.splits)

lemma attach_browserless:
  "attach_snapshot env drv job_id job_data = (d, t) \<Longrightarrow> browserless t"
  by (auto simp: attach_snapshot_def split: sum.splits prod.splits dest: save_browserless)

lemma attach_result:
  "attach_snapshot env drv job_id job_data = (d, t) \<Longrightarrow>
     complete_result site job_data \<and> job_data ''extraction_method'' = None \<Longrightarrow>
     complete_result site d \<and> d ''extraction_method'' = None"
  by (auto simp: attach_snapshot_def complete_result_def nonempty_str_iff split: sum.splits prod.splits)

lemma error_result_complete:
  "complete_result site (error_result site e) \<and> error_result site e ''extraction_method'' = None"
  by (simp add: complete_result_def nonempty_str_iff error_result_def)

lemma get_chrome_driver_trace:
  "get_chrome_driver env idx = (r, t) \<Longrightarrow> LaunchChrome \<in> set t \<and> Quit \<notin> set t"
  by (auto simp: get_chrome_driver_def Let_def split: sum.splits option.splits)

lemma release_driver_eq [simp]: "release_driver drv = [Quit]"
  by (simp add: release_driver_def split: option.splits)

lemma browser_tier_result:
  "browser_tier env url site job_id idx = (d, t) \<Longrightarrow>
     complete_result site d \<and> d ''extraction_method'' = None"
  by (auto simp: browser_tier_def error_result_complete
      split: sum.splits prod.splits dest: dispatch_result attach_result)

lemma browser_tier_trace:
  assumes "browser_tier env url site job_id idx = (d, t)"
  shows "LaunchChrome \<in> set t"
    and "fst (get_chrome_driver env idx) = Inl e \<Longrightarrow> Quit \<notin> set t"
    and "fst (get_chrome_driver env idx) = Inr drv \<Longrightarrow> \<exists>t'. t = t' @ [Quit] \<and> Quit \<notin> set t'"
proof -
  obtain r0 t0 where g: "get_chrome_driver env idx = (r0, t0)" by (cases "get_chrome_driver env idx")
  note g0 = get_chrome_driver_trace [OF g]
  show "LaunchChrome \<in> set t"
    using assms g g0 by (auto simp: browser_tier_def split: sum.splits prod.splits)
  show "fst (get_chrome_driver env idx) = Inl e \<Longrightarrow> Quit \<notin> set t"
    using assms g g0 by (auto simp: browser_tier_def split: sum.splits prod.splits)
  show "\<exists>t'. t = t' @ [Quit] \<and> Quit \<notin> set t'" if "fst (get_chrome_driver env idx) = Inr drv"
  proof -
    from that g have r0: "r0 = Inr drv" by simp
    obtain r1 t1 where x: "dispatch_extractor drv url site = (r1, t1)"
      by (cases "dispatch_extractor drv url site")
    have q1: "Quit \<notin> set t1" using dispatch_browserless [OF x] by (simp add: browserless_def)
    show ?thesis
    proof (cases r1)
      case (Inl e1)
      with assms g r0 x have "t = (t0 @ t1) @ [Quit]" by (simp add: browser_tier_def)
      with g0 q1 show ?thesis by auto
    next
      case (Inr job_data)
      obtain d2 t2 where a: "attach_snapshot env drv job_id job_data = (d2, t2)"
        by (cases "attach_snapshot env drv job_id job_data")
      have q2: "Quit \<notin> set t2" using attach_browserless [OF a] by (simp add: browserless_def)
      from assms g r0 x Inr a have "t = (t0 @ t1 @ t2) @ [Quit]" by (simp add: browser_tier_def)
      with g0 q1 q2 show ?thesis by auto
    qed
  qed
qed

lemma browser_tier_failure:
  assumes "browser_tier env url site job_id idx = (d, t)"
  shows "fst (get_chrome_driver env idx) = Inl e \<Longrightarrow> d = error_result site e"
    and "fst (get_chrome_driver env idx) = Inr drv \<Longrightarrow>
         fst (dispatch_extractor drv url site) = Inl e \<Longrightarrow> d = error_result site e"
  using assms by (auto simp: browser_tier_def split: sum.splits prod.splits)

lemma try_requests_trace: "snd (try_requests_scraping env url) = [HttpGet url]"
  by (simp add: try_requests_scraping_def Let_def split: sum.splits)

lemma try_requests_result:
  assumes "try_requests_scraping env url = (Some d, t)"
  shows "(\<exists>c. d ''company_name'' = Some (PStr c) \<and> c \<noteq> []) \<and>
         (\<exists>j. d ''job_title'' = Some (PStr j) \<and> j \<noteq> []) \<and>
         (\<exists>s. d ''job_description'' = Some (PStr s) \<and> s \<noteq> [] \<and> length s \<le> 2000) \<and>
         (\<exists>h. d ''html_content'' = Some (PStr h)) \<and>
         d ''extraction_method'' = Some (PStr ''requests'')"
proof -
  have len: "length (or_str (map_option (take 2000) v) ''No description available'') \<le> 2000" for v
    by (cases v) auto
  from assms show ?thesis
    by (auto simp: try_requests_scraping_def Let_def or_str_nonempty len
        split: sum.splits if_splits)
qed

lemma proxy_index [simp]: "get_next_proxy proxy_list 0 = (None, 0)"
  by (simp add: get_next_proxy_def proxy_list_def)

lemma scrape_job_shape:
  assumes "urlparse (lib env) url = Inr p"
  shows "(\<exists>d0 h.
            try_requests_scraping env url = (Some d0, [HttpGet url]) \<and>
            d0 ''html_content'' = Some (PStr h) \<and>
            write_file env (snapshots_dir @ ''/'' @ uuid4 env @ ''.html'') h = None \<and>
            scrape_job env url =
              (Inr ((d0(''html_snapshot_path'' \<mapsto> PStr (snapshots_dir @ ''/'' @ uuid4 env @ ''.html''),
                        ''source_site'' \<mapsto> PStr (site_of_domain (lower (netloc p)))))
                      (''html_content'' := None)),
               [HttpGet url, WriteFile (snapshots_dir @ ''/'' @ uuid4 env @ ''.html'')]))
       \<or> (\<exists>d t3 tpre.
            browser_tier env url (site_of_domain (lower (netloc p))) (uuid4 env) 0 = (d, t3) \<and>
            browserless tpre \<and>
            scrape_job env url = (Inr d, tpre @ t3))"
proof -
  obtain rr t1 where t: "try_requests_scraping env url = (rr, t1)"
    by (cases "try_requests_scraping env url")
  have t1: "t1 = [HttpGet url]" using try_requests_trace [of env url] t by simp
  obtain d t3 where b:
    "browser_tier env url (site_of_domain (lower (netloc p))) (uuid4 env) 0 = (d, t3)"
    by (cases "browser_tier env url (site_of_domain (lower (netloc p))) (uuid4 env) 0")
  show ?thesis
  proof (cases rr)
    case None
    with assms t t1 b have "scrape_job env url = (Inr d, [HttpGet url] @ t3)"
      by (simp add: scrape_job_def determine_source_site_def)
    moreover have "browserless [HttpGet url]" by simp
    ultimately have "\<exists>tpre. browserless tpre \<and> scrape_job env url = (Inr d, tpre @ t3)"
      by blast
    with b show ?thesis by blast
  next
    case (Some d0)
    show ?thesis
    proof (cases "\<exists>h. d0 ''html_content'' = Some (PStr h) \<and>
        write_file env (snapshots_dir @ ''/'' @ uuid4 env @ ''.html'') h = None")
      case True
      then obtain h where h: "d0 ''html_content'' = Some (PStr h)"
        "write_file env (snapshots_dir @ ''/'' @ uuid4 env @ ''.html'') h = None" by auto
      with assms t t1 Some show ?thesis
        by (intro disjI1 exI [of _ d0] exI [of _ h])
           (simp add: scrape_job_def determine_source_site_def save_html_snapshot_def Let_def)
    next
      case False
      with assms t t1 Some b have
        "\<exists>tpre. browserless tpre \<and> scrape_job env url = (Inr d, tpre @ t3)"
        by (auto simp: scrape_job_def determine_source_site_def save_html_snapshot_def Let_def
            split: option.splits pyval.splits
            intro: exI [of _ "[HttpGet url]"]
                   exI [of _ "[HttpGet url, WriteFile (snapshots_dir @ ''/'' @ uuid4 env @ ''.html'')]"])
      with b show ?thesis by blast
    qed
  qed
qed

lemma scrape_job_unparsed:
  "urlparse (lib env) url = Inl e \<Longrightarrow> scrape_job env url = (Inl e, [])"
  by (simp add: scrape_job_def determine_source_site_def)

subsection \<open>The example runs\<close>

lemma strip_replicate: "\<not> is_space c \<Longrightarrow> strip (replicate n c) = replicate n c"
  by (simp add: strip_def dropWhile_replicate)

lemma not_space_x: "\<not> is_space (CHR ''x'')"
  by (simp add: is_space_def)

lemmas example_defs =
  example_env_def example_lib_def example_driver_def failing_driver_def example_response_def

lemma example_env_sel:
  "lib (example_env h w c) = example_lib"
  "uuid4 (example_env h w c) = ''123e4567-e89b-42d3-a456-426614174000''"
  "requests_get (example_env h w c) u px = h"
  "write_file (example_env h w c) fp content = w"
  "chrome (example_env h w c) px = c"
  by (simp_all add: example_env_def)

lemma example_urlparse_linkedin:
  "urlparse (lib (example_env h w c)) ''https://www.linkedin.com/jobs/view/3849201/'' =
     Inr \<lparr>netloc = ''www.linkedin.com'', path = ''/jobs/view/3849201/'', query = []\<rparr>"
  by (simp add: example_defs)

lemma example_site_linkedin: "site_of_domain (lower ''www.linkedin.com'') = ''linkedin''"
  by (simp add: site_of_domain_def lower_def lower_char_def)

lemma example_linkedin_extraction:
  "fst (scrape_linkedin example_driver u) =
     Inr [''company_name'' \<mapsto> PStr ''Unknown Company'',
          ''job_title'' \<mapsto> PStr ''Software Engineer'',
          ''job_description'' \<mapsto> PStr (replicate 2001 (CHR ''x'')),
          ''source_site'' \<mapsto> PStr ''linkedin'']"
  by (simp add: scrape_linkedin_def scrape_with_chains_def example_driver_def
      linkedin_company_selectors_def linkedin_title_selectors_def
      linkedin_description_selectors_def find_element_with_fallbacks.simps by_of_method_def
      strip_replicate not_space_x strip_def is_space_def Let_def)

lemma example_failing_run:
  "scrape_job (example_env (Inl (Exn OtherException ''Connection refused'')) None (Inr failing_driver))
     ''https://www.linkedin.com/jobs/view/3849201/'' =
   (Inr (error_result ''linkedin'' (Exn OtherException ''net::ERR_NAME_NOT_RESOLVED'')),
    [HttpGet ''https://www.linkedin.com/jobs/view/3849201/'', LaunchChrome, Stealth,
     Navigate ''https://www.linkedin.com/jobs/view/3849201/'', Quit])"
  by (simp add: scrape_job_def determine_source_site_def example_site_linkedin
      try_requests_scraping_def browser_tier_def get_chrome_driver_def dispatch_extractor_def
      scrape_linkedin_def scrape_with_chains_def example_defs)

lemma example_failing_driver_acquired:
  "fst (get_chrome_driver
          (example_env (Inl (Exn OtherException ''Connection refused'')) None (Inr failing_driver))
          (snd (get_next_proxy proxy_list 0))) = Inr failing_driver"
  by (simp add: get_chrome_driver_def example_defs)

lemma example_failing_extraction:
  "fst (dispatch_extractor failing_driver u ''linkedin'') =
     Inl (Exn OtherException ''net::ERR_NAME_NOT_RESOLVED'')"
  by (simp add: dispatch_extractor_def scrape_linkedin_def scrape_with_chains_def example_defs)

lemma example_title_found:
  "select_first_text example_document requests_title_selectors = Some ''Software Engineer''"
  by (simp add: requests_title_selectors_def example_document_def)

lemma example_tier1_result:
  "try_requests_scraping (example_env (Inr example_response) w c) u =
     (Some [''company_name'' \<mapsto> PStr ''Unknown Company'',
            ''job_title'' \<mapsto> PStr ''Software Engineer'',
            ''job_description'' \<mapsto> PStr (replicate 2000 (CHR ''x'')),
            ''html_content'' \<mapsto> PStr ''<html><h1>Software Engineer</h1></html>'',
            ''extraction_method'' \<mapsto> PStr ''requests''],
      [HttpGet u])"
  by (simp add: try_requests_scraping_def example_defs example_document_def
      requests_title_selectors_def requests_company_selectors_def requests_desc_selectors_def
      truthy_def Let_def)

lemma example_browser_run:
  "\<exists>t. scrape_job (example_env (Inl (Exn OtherException ''Connection refused'')) None (Inr example_driver))
       ''https://www.linkedin.com/jobs/view/3849201/'' =
     (Inr [''company_name'' \<mapsto> PStr ''Unknown Company'',
           ''job_title'' \<mapsto> PStr ''Software Engineer'',
           ''job_description'' \<mapsto> PStr (replicate 2001 (CHR ''x'')),
           ''source_site'' \<mapsto> PStr ''linkedin'',
           ''html_snapshot_path'' \<mapsto> PStr ''../snapshots/123e4567-e89b-42d3-a456-426614174000.html''],
      HttpGet ''https://www.linkedin.com/jobs/view/3849201/'' # LaunchChrome # t)"
proof -
  let ?env = "example_env (Inl (Exn OtherException ''Connection refused'')) None (Inr example_driver)"
  let ?url = "''https://www.linkedin.com/jobs/view/3849201/''"
  obtain job_data t1 where x: "scrape_linkedin example_driver ?url = (job_data, t1)"
    by (cases "scrape_linkedin example_driver ?url")
  with example_linkedin_extraction [of ?url]
  have jd: "job_data = Inr [''company_name'' \<mapsto> PStr ''Unknown Company'',
          ''job_title'' \<mapsto> PStr ''Software Engineer'',
          ''job_description'' \<mapsto> PStr (replicate 2001 (CHR ''x'')),
          ''source_site'' \<mapsto> PStr ''linkedin'']" by simp
  have g: "get_chrome_driver ?env 0 = (Inr example_driver, [LaunchChrome, Stealth])"
    by (simp add: get_chrome_driver_def example_env_sel example_driver_def)
  have ps: "page_source example_driver = Inr ''<html><h1>Software Engineer</h1></html>''"
    by (simp add: example_driver_def)
  show ?thesis
    using x jd g
    by (simp add: scrape_job_def determine_source_site_def example_site_linkedin
        try_requests_scraping_def browser_tier_def dispatch_extractor_def attach_snapshot_def
        save_html_snapshot_def snapshots_dir_def Let_def example_env_sel example_lib_def ps)
qed

lemma example_tier1_run:
  "scrape_job (example_env (Inr example_response) None c) ''https://www.linkedin.com/jobs/view/3849201/'' =
     (Inr [''company_name'' \<mapsto> PStr ''Unknown Company'',
           ''job_title'' \<mapsto> PStr ''Software Engineer'',
           ''job_description'' \<mapsto> PStr (replicate 2000 (CHR ''x'')),
           ''extraction_method'' \<mapsto> PStr ''requests'',
           ''html_snapshot_path'' \<mapsto> PStr ''../snapshots/123e4567-e89b-42d3-a456-426614174000.html'',
           ''source_site'' \<mapsto> PStr ''linkedin''],
      [HttpGet ''https://www.linkedin.com/jobs/view/3849201/'',
       WriteFile ''../snapshots/123e4567-e89b-42d3-a456-426614174000.html''])"
  by (simp add: scrape_job_def determine_source_site_def example_site_linkedin
      example_tier1_result save_html_snapshot_def snapshots_dir_def Let_def
      example_env_sel example_lib_def fun_eq_iff)

subsection \<open>The orchestrator's contract\<close>

text \<open>
  Claim C1: for every URL, \<open>scrape_job\<close> returns a result; it does not raise. A URL is a
  string that \<open>urlparse\<close> parses: the hypothesis says that, and the caller passes nothing
  else. The result's \<open>source_site\<close> is the classification of the URL, and its
  \<open>company_name\<close> and \<open>job_title\<close> are non-empty strings. When the run reaches the
  browser tier and acquiring the driver or the site extractor raises \<open>e\<close>, the result has
  the two placeholders, a \<open>job_description\<close> that embeds the message of \<open>e\<close>, the
  classified \<open>source_site\<close>, and \<open>None\<close> as snapshot path.
\<close>

theorem scrape_job_returns_complete_result:
  assumes "urlparse (lib env) url = Inr p"
  shows "\<exists>d t. scrape_job env url = (Inr d, t) \<and>
           d ''source_site'' = Some (PStr (site_of_domain (lower (netloc p)))) \<and>
           (\<exists>c. d ''company_name'' = Some (PStr c) \<and> c \<noteq> []) \<and>
           (\<exists>j. d ''job_title'' = Some (PStr j) \<and> j \<noteq> []) \<and>
           (\<forall>e. LaunchChrome \<in> set t \<and>
                (fst (get_chrome_driver env (snd (get_next_proxy proxy_list 0))) = Inl e \<or>
                 (\<exists>drv. fst (get_chrome_driver env (snd (get_next_proxy proxy_list 0))) = Inr drv \<and>
                        fst (dispatch_extractor drv url (site_of_domain (lower (netloc p)))) = Inl e))
              \<longrightarrow>
                d ''company_name'' = Some (PStr ''Unknown Company'') \<and>
                d ''job_title'' = Some (PStr ''Unknown Position'') \<and>
                d ''job_description'' =
                  Some (PStr (''Error occurred while scraping: '' @ str_of_exn e)) \<and>
                d ''source_site'' = Some (PStr (site_of_domain (lower (netloc p)))) \<and>
                d ''html_snapshot_path'' = Some PNone)"
proof -
  from scrape_job_shape [OF assms] show ?thesis
  proof (elim disjE exE conjE)
    fix d0 h
    assume t: "try_requests_scraping env url = (Some d0, [HttpGet url])"
      and s: "scrape_job env url =
      (Inr ((d0(''html_snapshot_path'' \<mapsto> PStr (snapshots_dir @ ''/'' @ uuid4 env @ ''.html''),
                ''source_site'' \<mapsto> PStr (site_of_domain (lower (netloc p)))))
              (''html_content'' := None)),
       [HttpGet url, WriteFile (snapshots_dir @ ''/'' @ uuid4 env @ ''.html'')])"
    from try_requests_result [OF t] show ?thesis unfolding s by auto
  next
    fix d t3 tpre
    assume b: "browser_tier env url (site_of_domain (lower (netloc p))) (uuid4 env) 0 = (d, t3)"
      and s: "scrape_job env url = (Inr d, tpre @ t3)"
    have c: "complete_result (site_of_domain (lower (netloc p))) d"
      using browser_tier_result [OF b] by simp
    have f: "d = error_result (site_of_domain (lower (netloc p))) e"
      if "fst (get_chrome_driver env 0) = Inl e \<or>
          (\<exists>drv. fst (get_chrome_driver env 0) = Inr drv \<and>
             fst (dispatch_extractor drv url (site_of_domain (lower (netloc p)))) = Inl e)" for e
      using that browser_tier_failure [OF b] by blast
    show ?thesis
      unfolding s using c f by (auto simp: complete_result_def nonempty_str_iff error_result_def)
  qed
qed

theorem scrape_job_returns_complete_result_witness:
  "\<exists>d t. scrape_job
       (example_env (Inl (Exn OtherException ''Connection refused'')) None (Inr failing_driver))
       ''https://www.linkedin.com/jobs/view/3849201/'' = (Inr d, t) \<and>
     d ''company_name'' = Some (PStr ''Unknown Company'') \<and>
     d ''job_title'' = Some (PStr ''Unknown Position'') \<and>
     d ''job_description'' =
       Some (PStr ''Error occurred while scraping: net::ERR_NAME_NOT_RESOLVED'') \<and>
     d ''source_site'' = Some (PStr ''linkedin'') \<and>
     d ''html_snapshot_path'' = Some PNone"
proof -
  have l: "LaunchChrome \<in> set
     (snd (scrape_job
        (example_env (Inl (Exn OtherException ''Connection refused'')) None (Inr failing_driver))
        ''https://www.linkedin.com/jobs/view/3849201/''))"
    by (simp add: example_failing_run)
  show ?thesis
    using scrape_job_returns_complete_result
        [OF example_urlparse_linkedin, of "Inl (Exn OtherException ''Connection refused'')" None
           "Inr failing_driver"]
      l example_failing_driver_acquired example_failing_extraction
    by (fastforce simp: example_site_linkedin)
qed

text \<open>
  Claim C2: in every run of \<open>scrape_job\<close>, \<open>quit\<close> is called exactly once when the run
  reaches the browser tier (Chrome is launched) and \<open>_get_chrome_driver\<close> returns a driver,
  and not at all otherwise. In the first case \<open>quit\<close> is the last thing the run does,
  after the extraction and the snapshot whether they raised or not, and the run returns a
  result: what \<open>quit\<close> itself raises is dropped. The witness is a run whose site extractor
  raises and whose \<open>quit\<close> raises too.
\<close>

theorem driver_released_exactly_once:
  "count_list (snd (scrape_job env url)) Quit =
     (if LaunchChrome \<in> set (snd (scrape_job env url)) \<and>
         (\<exists>drv. fst (get_chrome_driver env (snd (get_next_proxy proxy_list 0))) = Inr drv)
      then 1 else 0) \<and>
   (LaunchChrome \<in> set (snd (scrape_job env url)) \<longrightarrow>
    (\<exists>drv. fst (get_chrome_driver env (snd (get_next_proxy proxy_list 0))) = Inr drv) \<longrightarrow>
      last (snd (scrape_job env url)) = Quit \<and> (\<exists>d. fst (scrape_job env url) = Inr d))"
proof (cases "urlparse (lib env) url")
  case (Inl e)
  then show ?thesis by (simp add: scrape_job_unparsed)
next
  case (Inr p)
  from scrape_job_shape [OF Inr] show ?thesis
  proof (elim disjE exE conjE)
    fix d0 h
    assume "scrape_job env url =
      (Inr ((d0(''html_snapshot_path'' \<mapsto> PStr (snapshots_dir @ ''/'' @ uuid4 env @ ''.html''),
                ''source_site'' \<mapsto> PStr (site_of_domain (lower (netloc p)))))
              (''html_content'' := None)),
       [HttpGet url, WriteFile (snapshots_dir @ ''/'' @ uuid4 env @ ''.html'')])"
    then show ?thesis by simp
  next
    fix d t3 tpre
    assume b: "browser_tier env url (site_of_domain (lower (netloc p))) (uuid4 env) 0 = (d, t3)"
      and q: "browserless tpre"
      and s: "scrape_job env url = (Inr d, tpre @ t3)"
    note tr = browser_tier_trace [OF b]
    show ?thesis
    proof (cases "fst (get_chrome_driver env 0)")
      case (Inl e)
      from tr(2) [OF Inl] q have "count_list (tpre @ t3) Quit = 0"
        by (simp add: browserless_def)
      with s Inl show ?thesis by simp
    next
      case (Inr drv)
      from tr(3) [OF Inr] obtain t' where t': "t3 = t' @ [Quit]" "Quit \<notin> set t'" by blast
      with q have "count_list (tpre @ t3) Quit = 1" "last (tpre @ t3) = Quit"
        by (simp_all add: browserless_def)
      with s Inr tr(1) show ?thesis by simp
    qed
  qed
qed

theorem driver_released_exactly_once_witness:
  "drv_quit failing_driver = Some (Exn OtherException ''chrome not reachable'') \<and>
   count_list
     (snd (scrape_job
        (example_env (Inl (Exn OtherException ''Connection refused'')) None (Inr failing_driver))
        ''https://www.linkedin.com/jobs/view/3849201/'')) Quit = 1 \<and>
   last
     (snd (scrape_job
        (example_env (Inl (Exn OtherException ''Connection refused'')) None (Inr failing_driver))
        ''https://www.linkedin.com/jobs/view/3849201/'')) = Quit \<and>
   (\<exists>d. fst (scrape_job
        (example_env (Inl (Exn OtherException ''Connection refused'')) None (Inr failing_driver))
        ''https://www.linkedin.com/jobs/view/3849201/'') = Inr d)"
proof -
  have q: "drv_quit failing_driver = Some (Exn OtherException ''chrome not reachable'')"
    by (simp add: example_defs)
  have l: "LaunchChrome \<in> set
     (snd (scrape_job
        (example_env (Inl (Exn OtherException ''Connection refused'')) None (Inr failing_driver))
        ''https://www.linkedin.com/jobs/view/3849201/''))"
    by (simp add: example_failing_run)
  show ?thesis
    using driver_released_exactly_once
      [of "example_env (Inl (Exn OtherException ''Connection refused'')) None (Inr failing_driver)"
          "''https://www.linkedin.com/jobs/view/3849201/''"]
      q l example_failing_driver_acquired
    by auto
qed

text \<open>
  Claim C5, as it is written, has no condition on the snapshot. When the lightweight fetch
  succeeds and writing the snapshot raises, the run goes on to the browser tier: Chrome is
  launched, and the result is the browser's, without \<open>extraction_method\<close>.
\<close>

theorem tier1_snapshot_failure_counterexample:
  "requests_get (example_env (Inr example_response) (Some (Exn OtherException ''Permission denied''))
       (Inr example_driver)) ''https://www.linkedin.com/jobs/view/3849201/'' None = Inr example_response \<and>
   status_code example_response = 200 \<and>
   soup example_response = Inr example_document \<and>
   select_first_text example_document requests_title_selectors = Some ''Software Engineer'' \<and>
   LaunchChrome \<in> set (snd (scrape_job
      (example_env (Inr example_response) (Some (Exn OtherException ''Permission denied''))
         (Inr example_driver))
      ''https://www.linkedin.com/jobs/view/3849201/'')) \<and>
   (case fst (scrape_job
      (example_env (Inr example_response) (Some (Exn OtherException ''Permission denied''))
         (Inr example_driver))
      ''https://www.linkedin.com/jobs/view/3849201/'') of
      Inl e \<Rightarrow> False
    | Inr d \<Rightarrow> d ''extraction_method'' = None \<and> d ''html_snapshot_path'' = Some PNone)"
proof -
  let ?env = "example_env (Inr example_response) (Some (Exn OtherException ''Permission denied''))
         (Inr example_driver)"
  let ?url = "''https://www.linkedin.com/jobs/view/3849201/''"
  obtain job_data t1 where x: "scrape_linkedin example_driver ?url = (Inr job_data, t1)"
    using example_linkedin_extraction [of ?url]
    by (cases "scrape_linkedin example_driver ?url") auto
  have g: "get_chrome_driver ?env 0 = (Inr example_driver, [LaunchChrome, Stealth])"
    by (simp add: get_chrome_driver_def example_defs)
  have b: "browser_tier ?env ?url ''linkedin'' (uuid4 ?env) 0 =
      (job_data(''html_snapshot_path'' \<mapsto> PNone),
       [LaunchChrome, Stealth] @ t1 @
       [PageSource, WriteFile ''../snapshots/123e4567-e89b-42d3-a456-426614174000.html''] @ [Quit])"
    using x g
    by (simp add: browser_tier_def dispatch_extractor_def attach_snapshot_def
        save_html_snapshot_def snapshots_dir_def example_defs Let_def)
  have jd: "job_data ''extraction_method'' = None"
    using x example_linkedin_extraction [of ?url] by auto
  have s: "scrape_job ?env ?url =
     (Inr (job_data(''html_snapshot_path'' \<mapsto> PNone)),
      [HttpGet ?url, WriteFile ''../snapshots/123e4567-e89b-42d3-a456-426614174000.html''] @
      [LaunchChrome, Stealth] @ t1 @
       [PageSource, WriteFile ''../snapshots/123e4567-e89b-42d3-a456-426614174000.html''] @ [Quit])"
    using b
    by (simp add: scrape_job_def determine_source_site_def example_site_linkedin
        example_tier1_result save_html_snapshot_def snapshots_dir_def Let_def
        example_env_sel example_lib_def)
  show ?thesis
    unfolding s using jd
    by (simp add: example_title_found example_env_sel) (simp add: example_response_def)
qed

text \<open>
  Claim C5, amended: when the lightweight fetch succeeds (status 200 and a title or a
  company found) and the snapshot file is written without an exception, \<open>scrape_job\<close>
  does exactly two things, the HTTP request and the write of the snapshot, and returns the
  result with \<open>extraction_method\<close> \<open>requests\<close> and the snapshot path set; Chrome is never
  launched.
\<close>

theorem tier1_success_returns:
  assumes "urlparse (lib env) url = Inr p"
    and "requests_get env url None = Inr resp"
    and "status_code resp = 200"
    and "soup resp = Inr select_one"
    and "truthy (select_first_text select_one requests_title_selectors) \<or>
         truthy (select_first_text select_one requests_company_selectors)"
    and "write_file env (snapshots_dir @ ''/'' @ uuid4 env @ ''.html'') (resp_text resp) = None"
  shows "\<exists>d. scrape_job env url =
              (Inr d, [HttpGet url, WriteFile (snapshots_dir @ ''/'' @ uuid4 env @ ''.html'')]) \<and>
           d ''extraction_method'' = Some (PStr ''requests'') \<and>
           d ''html_snapshot_path'' = Some (PStr (snapshots_dir @ ''/'' @ uuid4 env @ ''.html'')) \<and>
           d ''source_site'' = Some (PStr (site_of_domain (lower (netloc p)))) \<and>
           d ''html_content'' = None \<and>
           LaunchChrome \<notin> set (snd (scrape_job env url))"
  using assms
  by (auto simp: scrape_job_def determine_source_site_def try_requests_scraping_def
      save_html_snapshot_def Let_def)

theorem tier1_success_returns_witness:
  "\<exists>d. scrape_job (example_env (Inr example_response) None (Inr example_driver))
          ''https://www.linkedin.com/jobs/view/3849201/'' =
          (Inr d, [HttpGet ''https://www.linkedin.com/jobs/view/3849201/'',
                   WriteFile ''../snapshots/123e4567-e89b-42d3-a456-426614174000.html'']) \<and>
        d ''extraction_method'' = Some (PStr ''requests'') \<and>
        d ''html_snapshot_path'' =
          Some (PStr ''../snapshots/123e4567-e89b-42d3-a456-426614174000.html'') \<and>
        d ''source_site'' = Some (PStr ''linkedin'')"
proof -
  let ?env = "example_env (Inr example_response) None (Inr example_driver)"
  have a: "requests_get ?env ''https://www.linkedin.com/jobs/view/3849201/'' None = Inr example_response"
    and b: "status_code example_response = 200"
    and c: "soup example_response = Inr example_document"
    and w: "write_file ?env (snapshots_dir @ ''/'' @ uuid4 ?env @ ''.html'') (resp_text example_response) = None"
    by (simp_all add: example_defs)
  have d: "truthy (select_first_text example_document requests_title_selectors) \<or>
      truthy (select_first_text example_document requests_company_selectors)"
    by (simp add: example_title_found truthy_def)
  show ?thesis
    using tier1_success_returns [OF example_urlparse_linkedin a b c d w]
    by (auto simp: example_site_linkedin snapshots_dir_def example_env_sel)
qed

text \<open>
  Claim C8, as it is written, asks for an \<open>extraction_method\<close> in every result. A run
  whose HTTP request fails and whose browser extraction succeeds returns a result with a
  title and without that field.
\<close>

theorem browser_result_without_method_counterexample:
  "case fst (scrape_job
         (example_env (Inl (Exn OtherException ''Connection refused'')) None (Inr example_driver))
         ''https://www.linkedin.com/jobs/view/3849201/'') of
     Inl e \<Rightarrow> False
   | Inr d \<Rightarrow> d ''job_title'' = Some (PStr ''Software Engineer'') \<and>
             d ''extraction_method'' = None"
  using example_browser_run by auto

text \<open>
  Claim C8, amended: a result of \<open>scrape_job\<close> carries \<open>extraction_method\<close>, with value
  \<open>requests\<close>, exactly when it comes from the lightweight tier (Chrome was not launched);
  a result of the browser tier, success or failure, has no such field.
\<close>

theorem extraction_method_only_from_requests:
  assumes "scrape_job env url = (Inr d, t)"
  shows "d ''extraction_method'' =
           (if LaunchChrome \<in> set t then None else Some (PStr ''requests''))"
proof -
  from assms obtain p where p: "urlparse (lib env) url = Inr p"
    by (cases "urlparse (lib env) url") (auto simp: scrape_job_unparsed)
  from scrape_job_shape [OF p] show ?thesis
  proof (elim disjE exE conjE)
    fix d0 h
    assume "try_requests_scraping env url = (Some d0, [HttpGet url])"
      and "scrape_job env url =
      (Inr ((d0(''html_snapshot_path'' \<mapsto> PStr (snapshots_dir @ ''/'' @ uuid4 env @ ''.html''),
                ''source_site'' \<mapsto> PStr (site_of_domain (lower (netloc p)))))
              (''html_content'' := None)),
       [HttpGet url, WriteFile (snapshots_dir @ ''/'' @ uuid4 env @ ''.html'')])"
    with assms try_requests_result [of env url d0] show ?thesis by auto
  next
    fix d' t3 tpre
    assume b: "browser_tier env url (site_of_domain (lower (netloc p))) (uuid4 env) 0 = (d', t3)"
      and s: "scrape_job env url = (Inr d', tpre @ t3)"
    with assms browser_tier_result [OF b] browser_tier_trace(1) [OF b] show ?thesis by auto
  qed
qed

theorem extraction_method_only_from_requests_witness:
  "\<exists>d t. scrape_job (example_env (Inr example_response) None (Inr example_driver))
            ''https://www.linkedin.com/jobs/view/3849201/'' = (Inr d, t) \<and>
         LaunchChrome \<notin> set t \<and>
         d ''extraction_method'' = Some (PStr ''requests'')"
  using extraction_method_only_from_requests [OF example_tier1_run [of "Inr example_driver"]]
    example_tier1_run [of "Inr example_driver"]
  by simp




end
